theory Spec2Isabelle
  imports
    Main
    "HOL-Library.Extended_Nat"
    "HOL-Library.Char_ord"
    "HOL-Library.List_Lexorder"
    "HOL-Library.Option_ord"
begin

section \<open>Data model of \<open>MongoDBIngestor.ts\<close>\<close>

text \<open>
  The relation kinds of the TREE vocabulary that the ingestor writes
  (\<open>RelationType.GreaterThanOrEqualTo\<close>, \<open>RelationType.LessThan\<close>), with the other
  comparison kinds of the vocabulary, which the ingestor never writes.
\<close>

datatype RelationType =
    GreaterThanOrEqualTo
  | GreaterThan
  | LessThanOrEqualTo
  | LessThan
  | EqualTo

text \<open>\<open>IRelation\<close>: the object literal pushed to a bucket's \<open>relations\<close>.\<close>

record IRelation =
  rel_type :: RelationType
  rel_value :: string
  rel_path :: string
  rel_bucket :: string

text \<open>
  \<open>MongoFragment\<close>: a document of the index collection. \<open>createBucket\<close> writes
  \<open>id\<close>, \<open>streamId\<close>, \<open>leaf\<close>, \<open>relations\<close>, \<open>count\<close>, \<open>members\<close>; \<open>createWindow\<close> and
  \<open>updateWindow\<close> add the optional \<open>start\<close> and \<open>end\<close>, always as the text that
  \<open>toISOString\<close> returns. A missing field is \<open>None\<close>.
\<close>

record MongoFragment =
  doc_id :: string
  doc_streamId :: string
  doc_leaf :: bool
  doc_relations :: "IRelation list"
  doc_count :: nat
  doc_members :: "string list"
  doc_start :: "string option"
  doc_end :: "string option"

text \<open>
  A JavaScript \<open>Date\<close>: a time value in milliseconds since the epoch, or the
  invalid date (time value \<open>NaN\<close>). An invalid date is still an object and
  therefore truthy.
\<close>

datatype date = ValidDate int | InvalidDate

text \<open>\<open>Window\<close>: every field but the identifier is optional in the source.\<close>

record Window =
  w_identifier :: string
  w_memberIdentifiers :: "string list option"
  w_start :: "date option"
  w_end :: "date option"

text \<open>An RDF quad, its four terms by their values; a \<open>Member\<close> is an id and quads.\<close>

type_synonym quad = "string \<times> string \<times> string \<times> string"

record Member =
  member_id :: string
  member_quads :: "quad list"

text \<open>The documents of the data collection and of the meta collection.\<close>

record DataElement =
  data_id :: string
  data_data :: string

record MetaDocument =
  meta_id :: string
  meta_value :: string
  meta_type :: string

text \<open>
  Every \<open>throw Error(...)\<close> of the source, by the kind the specification gives it:
  \<^item> \<open>NotConnected\<close>: ``Not connected to ... Try `initialise` first.'' (the collection getters);
  \<^item> \<open>ConfigurationError\<close>: ``TimestampPath was not configured'' and
    ``No way to create SDS metadata, can be done later maybe.'';
  \<^item> \<open>NotFoundError\<close>: ``No buckets present'' and ``Window with identifier ... was not
    found in the database'';
  \<^item> \<open>InvalidWindowError\<close>: ``Can not add window ... to the root as it has no start
    date value'';
  \<^item> \<open>RangeError\<close>: what \<open>toISOString\<close> throws on an invalid date;
  \<^item> \<open>ExtractionError\<close>: what \<open>extractDate\<close> throws;
  \<^item> \<open>StoreError\<close>: what the driver throws (\<open>insertMany\<close> of an empty batch).
\<close>

datatype error =
    NotConnected
  | ConfigurationError
  | NotFoundError
  | InvalidWindowError
  | RangeError
  | ExtractionError
  | StoreError

text \<open>
  The functions the source imports and the built-ins of \<open>Date\<close> whose result is a
  text: \<open>extractDate\<close> (package \<open>@treecg/ldes-snapshot\<close>), \<open>quadsToString\<close>
  (module \<open>./Util\<close>), \<open>new Date(text)\<close> and \<open>Date.prototype.toISOString\<close> on a
  valid time value. They are parameters of the model.
\<close>

record externals =
  extractDate :: "quad list \<Rightarrow> string \<Rightarrow> error + date"
  quadsToString :: "quad list \<Rightarrow> string"
  Date_parse :: "string \<Rightarrow> date"
  toISOString :: "int \<Rightarrow> string"

text \<open>
  The ingestor object together with the database it is connected to:
  \<open>mongoConnection\<close> (set or not), \<open>sdsStreamIdentifier\<close> (a field of
  \<open>AbstractIngestor\<close>), the fields \<open>_pageSize\<close>, \<open>_timestampPath\<close>, \<open>_metadata\<close>,
  and the three collections, each the list of its documents in insertion order.
  A page size, when set, is a count of members: a natural number.
\<close>

record state =
  mongoConnection :: bool
  sdsStreamIdentifier :: string
  priv_pageSize :: "nat option"
  priv_timestampPath :: "string option"
  priv_metadata :: "string option"
  metaCollection :: "MetaDocument list"
  dataCollection :: "DataElement list"
  indexCollection :: "MongoFragment list"

section \<open>Asynchronous methods: a state and exception monad\<close>

text \<open>
  A method is a function from the state to a result (\<open>Inl\<close> the error thrown,
  \<open>Inr\<close> the value returned) and the state it leaves: writes made before a throw
  stay made.
\<close>

type_synonym 'a io = "state \<Rightarrow> (error + 'a) \<times> state"

definition return :: "'a \<Rightarrow> 'a io" where
  "return x = (\<lambda>s. (Inr x, s))"

definition throw :: "error \<Rightarrow> 'a io" where
  "throw e = (\<lambda>s. (Inl e, s))"

definition await :: "'a io \<Rightarrow> ('a \<Rightarrow> 'b io) \<Rightarrow> 'b io" where
  "await m f = (\<lambda>s. case m s of (Inl e, s') \<Rightarrow> (Inl e, s') | (Inr x, s') \<Rightarrow> f x s')"

definition lift :: "error + 'a \<Rightarrow> 'a io" where
  "lift r = (\<lambda>s. (r, s))"

section \<open>JavaScript built-ins\<close>

text \<open>\<open>String(n)\<close> for an integral number below \<open>10^21\<close>: its decimal digits.\<close>

function natToString :: "nat \<Rightarrow> string" where
  "natToString n =
     (if n < 10 then [''0123456789'' ! n]
      else natToString (n div 10) @ [''0123456789'' ! (n mod 10)])"
  by pat_completeness auto
termination
  by (relation "measure (\<lambda>n. n)") auto

declare natToString.simps [simp del]

definition numberToString :: "int \<Rightarrow> string" where
  "numberToString i =
     (if i < 0 then CHR ''-'' # natToString (nat (- i)) else natToString (nat i))"

text \<open>\<open>d.valueOf() + ''\<close>: the time value as text, \<open>NaN\<close> for the invalid date.\<close>

definition date_valueOf_string :: "date \<Rightarrow> string" where
  "date_valueOf_string d =
     (case d of ValidDate t \<Rightarrow> numberToString t | InvalidDate \<Rightarrow> ''NaN'')"

text \<open>\<open>d.toISOString()\<close>: throws \<open>RangeError\<close> on the invalid date.\<close>

definition date_toISOString :: "externals \<Rightarrow> date \<Rightarrow> string io" where
  "date_toISOString ext d =
     (case d of ValidDate t \<Rightarrow> return (toISOString ext t) | InvalidDate \<Rightarrow> throw RangeError)"

text \<open>\<open>new Date(v)\<close> for a text or \<open>undefined\<close>: \<open>new Date(undefined)\<close> is invalid.\<close>

definition newDate :: "externals \<Rightarrow> string option \<Rightarrow> date" where
  "newDate ext v = (case v of None \<Rightarrow> InvalidDate | Some s \<Rightarrow> Date_parse ext s)"

section \<open>MongoDB collections\<close>

text \<open>
  A collection is the list of its documents in natural (insertion) order.
  \<open>findOne\<close> returns the first document matching the filter, \<open>insertOne\<close> and
  \<open>insertMany\<close> append, \<open>updateOne\<close> updates the first matching document and does
  nothing when there is none. The collections carry no unique index but the
  driver's own \<open>_id\<close>, so an insert never fails on the fields modelled here.
\<close>

definition findOne :: "('a \<Rightarrow> bool) \<Rightarrow> 'a list \<Rightarrow> 'a option" where
  "findOne P xs = find P xs"

definition insertOne :: "'a \<Rightarrow> 'a list \<Rightarrow> 'a list" where
  "insertOne x xs = xs @ [x]"

definition insertMany :: "'a list \<Rightarrow> 'a list \<Rightarrow> 'a list" where
  "insertMany ys xs = xs @ ys"

fun updateOne :: "('a \<Rightarrow> bool) \<Rightarrow> ('a \<Rightarrow> 'a) \<Rightarrow> 'a list \<Rightarrow> 'a list" where
  "updateOne P f [] = []"
| "updateOne P f (x # xs) = (if P x then f x # xs else x # updateOne P f xs)"

text \<open>The filter \<open>{ id: bucketIdentifier, streamId: this.sdsStreamIdentifier }\<close>.\<close>

definition bucketFilter :: "string \<Rightarrow> string \<Rightarrow> MongoFragment \<Rightarrow> bool" where
  "bucketFilter sid bucketIdentifier d \<longleftrightarrow> doc_id d = bucketIdentifier \<and> doc_streamId d = sid"

text \<open>
  \<open>.sort({ "start": -1 })\<close>: descending by \<open>start\<close>. MongoDB compares texts
  byte by byte, and a document without the field sorts as \<open>null\<close>, below every
  text: the order of \<open>string option\<close>. The sort is an insertion sort that keeps
  documents with equal keys in their natural order.
\<close>

fun insort_desc :: "MongoFragment \<Rightarrow> MongoFragment list \<Rightarrow> MongoFragment list" where
  "insort_desc x [] = [x]"
| "insort_desc x (y # ys) =
     (if doc_start y \<le> doc_start x then x # y # ys else y # insort_desc x ys)"

fun sort_start_desc :: "MongoFragment list \<Rightarrow> MongoFragment list" where
  "sort_start_desc [] = []"
| "sort_start_desc (x # xs) = insort_desc x (sort_start_desc xs)"

text \<open>
  \<open>{ "$set": windowParams }\<close>: only the fields present in \<open>windowParams\<close>; with
  none present the document stays as it is.
\<close>

definition setWindowParams ::
    "string option \<Rightarrow> string option \<Rightarrow> MongoFragment \<Rightarrow> MongoFragment" where
  "setWindowParams start_param end_param d =
     (let d1 = (case start_param of None \<Rightarrow> d | Some v \<Rightarrow> d\<lparr>doc_start := Some v\<rparr>)
      in (case end_param of None \<Rightarrow> d1 | Some v \<Rightarrow> d1\<lparr>doc_end := Some v\<rparr>))"

section \<open>\<open>MongoDBIngestor\<close>\<close>

text \<open>The getters \<open>dbDataCollection\<close>, \<open>dbIndexCollection\<close>, \<open>dbMetaCollection\<close>.\<close>

definition dbDataCollection :: "DataElement list io" where
  "dbDataCollection =
     (\<lambda>s. if \<not> mongoConnection s then (Inl NotConnected, s) else (Inr (dataCollection s), s))"

definition dbIndexCollection :: "MongoFragment list io" where
  "dbIndexCollection =
     (\<lambda>s. if \<not> mongoConnection s then (Inl NotConnected, s) else (Inr (indexCollection s), s))"

definition dbMetaCollection :: "MetaDocument list io" where
  "dbMetaCollection =
     (\<lambda>s. if \<not> mongoConnection s then (Inl NotConnected, s) else (Inr (metaCollection s), s))"

text \<open>Writing a collection back (the effect of an insert or an update).\<close>

definition putDataCollection :: "DataElement list \<Rightarrow> unit io" where
  "putDataCollection c = (\<lambda>s. (Inr (), s\<lparr>dataCollection := c\<rparr>))"

definition putIndexCollection :: "MongoFragment list \<Rightarrow> unit io" where
  "putIndexCollection c = (\<lambda>s. (Inr (), s\<lparr>indexCollection := c\<rparr>))"

definition putMetaCollection :: "MetaDocument list \<Rightarrow> unit io" where
  "putMetaCollection c = (\<lambda>s. (Inr (), s\<lparr>metaCollection := c\<rparr>))"

definition SDS_Stream :: string where
  "SDS_Stream = ''https://w3id.org/sds#Stream''"

text \<open>
  \<open>initialise(sdsMetadata?)\<close>: connects (the connection itself is taken to
  succeed), returns when the stream's metadata is there, throws when there is
  no metadata to write (\<open>undefined\<close> or the empty text), writes it otherwise.
\<close>

definition initialise :: "string option \<Rightarrow> unit io" where
  "initialise sdsMetadata =
     await (\<lambda>s. (Inr (), s\<lparr>mongoConnection := True\<rparr>)) (\<lambda>_.
     await (\<lambda>s. (Inr (sdsStreamIdentifier s), s)) (\<lambda>sid.
     await dbMetaCollection (\<lambda>coll.
     let streamExists = findOne (\<lambda>m. meta_id m = sid) coll in
     if streamExists \<noteq> None then return ()
     else
       (case sdsMetadata of
          None \<Rightarrow> throw ConfigurationError
        | Some v \<Rightarrow>
            if v = [] then throw ConfigurationError
            else
              await dbMetaCollection (\<lambda>coll.
              putMetaCollection
                (insertOne \<lparr>meta_id = sid, meta_value = v, meta_type = SDS_Stream\<rparr>
                   coll))))))"

text \<open>
  \<open>storeMembers(member)\<close>: one data element per member, inserted with
  \<open>insertMany\<close>, which rejects an empty batch.
\<close>

definition storeMembers :: "externals \<Rightarrow> Member list \<Rightarrow> unit io" where
  "storeMembers ext member =
     (let dataElements =
            map (\<lambda>m. \<lparr>data_id = member_id m, data_data = quadsToString ext (member_quads m)\<rparr>)
              member
      in await dbDataCollection (\<lambda>coll.
         if dataElements = [] then throw StoreError
         else putDataCollection (insertMany dataElements coll)))"

text \<open>
  Modelled from the spec: \<open>storeMember\<close> is a method of \<open>AbstractIngestor\<close>, whose
  file is not among the sources. The specification has \<open>append\<close> ``persist the
  member payload'' through the member store's \<open>insertMembers\<close>, which is
  \<open>storeMembers\<close> here, on the one member.
\<close>

definition storeMember :: "externals \<Rightarrow> Member \<Rightarrow> unit io" where
  "storeMember ext member = storeMembers ext [member]"

definition createBucket :: "string \<Rightarrow> unit io" where
  "createBucket bucketIdentifier =
     await (\<lambda>s. (Inr (sdsStreamIdentifier s), s)) (\<lambda>sid.
     let bucket = \<lparr>doc_id = bucketIdentifier, doc_streamId = sid, doc_leaf = True,
                   doc_relations = [], doc_count = 0, doc_members = [],
                   doc_start = None, doc_end = None\<rparr>
     in await dbIndexCollection (\<lambda>coll. putIndexCollection (insertOne bucket coll)))"

definition addMemberstoBucket :: "string \<Rightarrow> string list \<Rightarrow> unit io" where
  "addMemberstoBucket bucketIdentifier memberIDs =
     await dbIndexCollection (\<lambda>coll.
     await (\<lambda>s. (Inr (sdsStreamIdentifier s), s)) (\<lambda>sid.
     putIndexCollection
       (updateOne (bucketFilter sid bucketIdentifier)
          (\<lambda>d. d\<lparr>doc_members := doc_members d @ memberIDs\<rparr>) coll)))"

definition addRelationsToBucket :: "string \<Rightarrow> IRelation list \<Rightarrow> unit io" where
  "addRelationsToBucket bucketIdentifier relations =
     await dbIndexCollection (\<lambda>coll.
     await (\<lambda>s. (Inr (sdsStreamIdentifier s), s)) (\<lambda>sid.
     putIndexCollection
       (updateOne (bucketFilter sid bucketIdentifier)
          (\<lambda>d. d\<lparr>doc_relations := doc_relations d @ relations\<rparr>) coll)))"

definition bucketExists :: "string \<Rightarrow> bool io" where
  "bucketExists bucketIdentifier =
     await dbIndexCollection (\<lambda>coll.
     await (\<lambda>s. (Inr (sdsStreamIdentifier s), s)) (\<lambda>sid.
     let exists = findOne (bucketFilter sid bucketIdentifier) coll in
     if exists \<noteq> None then return True else return False))"

section \<open>\<open>TSMongoDBIngestor\<close>\<close>

definition root :: string where
  "root = ''''"

text \<open>The getter \<open>pageSize\<close>: \<open>this._pageSize ?? Infinity\<close>.\<close>

definition pageSize :: "state \<Rightarrow> enat" where
  "pageSize s = (case priv_pageSize s of None \<Rightarrow> \<infinity> | Some p \<Rightarrow> enat p)"

text \<open>The getter \<open>timestampPath\<close>: throws when the field is unset or the empty text.\<close>

definition timestampPath :: "string io" where
  "timestampPath =
     (\<lambda>s. case priv_timestampPath s of
             None \<Rightarrow> (Inl ConfigurationError, s)
           | Some p \<Rightarrow> if p = [] then (Inl ConfigurationError, s) else (Inr p, s))"

definition documentToWindow :: "externals \<Rightarrow> MongoFragment \<Rightarrow> Window" where
  "documentToWindow ext document =
     \<lparr>w_identifier = doc_id document,
      w_memberIdentifiers = Some (doc_members document),
      w_start = Some (newDate ext (doc_start document)),
      w_end = Some (newDate ext (doc_start document))\<rparr>"

definition getMostRecentWindow :: "externals \<Rightarrow> Window io" where
  "getMostRecentWindow ext =
     await dbIndexCollection (\<lambda>coll.
     await (\<lambda>s. (Inr (sdsStreamIdentifier s), s)) (\<lambda>sid.
     let mostRecentBucket =
           (case take 1 (sort_start_desc (filter (\<lambda>d. doc_streamId d = sid) coll)) of
              [] \<Rightarrow> None
            | d # _ \<Rightarrow> Some d)
     in (case mostRecentBucket of
           None \<Rightarrow> throw NotFoundError
         | Some d \<Rightarrow> return (documentToWindow ext d))))"

definition bucketSize :: "Window \<Rightarrow> nat io" where
  "bucketSize window =
     await dbIndexCollection (\<lambda>coll.
     await (\<lambda>s. (Inr (sdsStreamIdentifier s), s)) (\<lambda>sid.
     let bucket = findOne (bucketFilter sid (w_identifier window)) coll in
     (case bucket of
        None \<Rightarrow> throw NotFoundError
      | Some b \<Rightarrow> return (length (doc_members b)))))"

text \<open>
  The \<open>windowParams\<close> of \<open>createWindow\<close> and \<open>updateWindow\<close>: \<open>start\<close> and \<open>end\<close> as
  ISO texts, each only when the window has it.
\<close>

definition windowParam :: "externals \<Rightarrow> date option \<Rightarrow> string option io" where
  "windowParam ext v =
     (case v of
        None \<Rightarrow> return None
      | Some d \<Rightarrow> await (date_toISOString ext d) (\<lambda>t. return (Some t)))"

definition updateWindow :: "externals \<Rightarrow> Window \<Rightarrow> unit io" where
  "updateWindow ext window =
     await (windowParam ext (w_start window)) (\<lambda>start_param.
     await (windowParam ext (w_end window)) (\<lambda>end_param.
     await dbIndexCollection (\<lambda>coll.
     await (\<lambda>s. (Inr (sdsStreamIdentifier s), s)) (\<lambda>sid.
     putIndexCollection
       (updateOne (bucketFilter sid (w_identifier window))
          (setWindowParams start_param end_param) coll)))))"

definition createWindow :: "externals \<Rightarrow> Window \<Rightarrow> unit io" where
  "createWindow ext window =
     await (createBucket (w_identifier window)) (\<lambda>_.
     await (windowParam ext (w_start window)) (\<lambda>start_param.
     await (windowParam ext (w_end window)) (\<lambda>end_param.
     await dbIndexCollection (\<lambda>coll.
     await (\<lambda>s. (Inr (sdsStreamIdentifier s), s)) (\<lambda>sid.
     putIndexCollection
       (updateOne (bucketFilter sid (w_identifier window))
          (setWindowParams start_param end_param) coll))))))"

definition addWindowToRoot :: "externals \<Rightarrow> Window \<Rightarrow> unit io" where
  "addWindowToRoot ext window =
     (case w_start window of
        None \<Rightarrow> throw InvalidWindowError
      | Some start \<Rightarrow>
          await (date_toISOString ext start) (\<lambda>v.
          await timestampPath (\<lambda>p.
          addRelationsToBucket root
            [\<lparr>rel_type = GreaterThanOrEqualTo, rel_value = v, rel_path = p,
              rel_bucket = w_identifier window\<rparr>])))"

definition instantiate :: "externals \<Rightarrow> string \<Rightarrow> unit io" where
  "instantiate ext config =
     await (initialise (Some config)) (\<lambda>_.
     await (\<lambda>s. (Inr (), s\<lparr>priv_pageSize := Some 50,
                            priv_timestampPath := Some ''http://www.w3.org/ns/sosa/resultTime'',
                            priv_metadata := Some config\<rparr>)) (\<lambda>_.
     let date = newDate ext (Some ''2022-08-07T08:08:21Z'') in
     await (bucketExists root) (\<lambda>ex.
     if ex then return ()
     else
       await (createBucket root) (\<lambda>_.
       let firstWindow = \<lparr>w_identifier = date_valueOf_string date,
                          w_memberIdentifiers = None,
                          w_start = Some date, w_end = None\<rparr>
       in await (createWindow ext firstWindow) (\<lambda>_.
          addWindowToRoot ext firstWindow)))))"

definition append :: "externals \<Rightarrow> Member \<Rightarrow> unit io" where
  "append ext member =
     await (getMostRecentWindow ext) (\<lambda>currentWindow.
     await (bucketSize currentWindow) (\<lambda>bucketSize.
     await (\<lambda>s. (Inr (pageSize s), s)) (\<lambda>pageSize.
     if enat (bucketSize + 1) > pageSize then
       await timestampPath (\<lambda>p.
       await (lift (extractDate ext (member_quads member) p)) (\<lambda>memberDate.
       let newWindow = \<lparr>w_identifier = date_valueOf_string memberDate,
                        w_memberIdentifiers = None,
                        w_start = Some memberDate, w_end = None\<rparr>
       in await (createWindow ext newWindow) (\<lambda>_.
          await (addWindowToRoot ext newWindow) (\<lambda>_.
          let currentWindow = currentWindow\<lparr>w_end := Some memberDate\<rparr>
          in await (updateWindow ext currentWindow) (\<lambda>_.
             await (date_toISOString ext memberDate) (\<lambda>v.
             await timestampPath (\<lambda>p.
             addRelationsToBucket root
               [\<lparr>rel_type = LessThan, rel_value = v, rel_path = p,
                 rel_bucket = w_identifier currentWindow\<rparr>])))))))
     else
       await (storeMember ext member) (\<lambda>_.
       addMemberstoBucket (w_identifier currentWindow) [member_id member]))))"

fun publish :: "externals \<Rightarrow> Member list \<Rightarrow> unit io" where
  "publish ext [] = return ()"
| "publish ext (member # members) = await (append ext member) (\<lambda>_. publish ext members)"

section \<open>A concrete stream for the examples\<close>

text \<open>
  Stand-ins for the imported functions, enough to run the ingestor on two
  instants: \<open>demo_parse\<close> and \<open>demo_iso\<close> know the ISO texts of
  \<open>2022-08-07T08:08:21Z\<close> and of the second after it; \<open>demo_extractDate\<close>
  reads the object of the one quad whose predicate is the timestamp path and
  fails when there is not exactly one.
\<close>

definition demo_parse :: "string \<Rightarrow> date" where
  "demo_parse s =
     (if s = ''2022-08-07T08:08:21Z'' \<or> s = ''2022-08-07T08:08:21.000Z''
      then ValidDate 1659859701000
      else if s = ''2022-08-07T08:08:22.000Z'' then ValidDate 1659859702000
      else InvalidDate)"

definition demo_iso :: "int \<Rightarrow> string" where
  "demo_iso t =
     (if t = 1659859701000 then ''2022-08-07T08:08:21.000Z''
      else if t = 1659859702000 then ''2022-08-07T08:08:22.000Z''
      else ''other'')"

definition demo_extractDate :: "quad list \<Rightarrow> string \<Rightarrow> error + date" where
  "demo_extractDate qs p =
     (case filter (\<lambda>q. fst (snd q) = p) qs of
        [q] \<Rightarrow> Inr (demo_parse (fst (snd (snd q))))
      | _ \<Rightarrow> Inl ExtractionError)"

definition demo_ext :: externals where
  "demo_ext = \<lparr>extractDate = demo_extractDate, quadsToString = concat \<circ> map fst,
               Date_parse = demo_parse, toISOString = demo_iso\<rparr>"

definition demo_path :: string where
  "demo_path = ''http://www.w3.org/ns/sosa/resultTime''"

definition demo_member :: "string \<Rightarrow> string \<Rightarrow> Member" where
  "demo_member i t = \<lparr>member_id = i, member_quads = [(i, demo_path, t, [])]\<rparr>"

text \<open>The root bucket and the first window as \<open>instantiate\<close> leaves them.\<close>

definition demo_root :: MongoFragment where
  "demo_root =
     \<lparr>doc_id = [], doc_streamId = ''s'', doc_leaf = True,
      doc_relations =
        [\<lparr>rel_type = GreaterThanOrEqualTo, rel_value = ''2022-08-07T08:08:21.000Z'',
          rel_path = demo_path, rel_bucket = ''1659859701000''\<rparr>],
      doc_count = 0, doc_members = [], doc_start = None, doc_end = None\<rparr>"

definition demo_first :: "string list \<Rightarrow> MongoFragment" where
  "demo_first ms =
     \<lparr>doc_id = ''1659859701000'', doc_streamId = ''s'', doc_leaf = True,
      doc_relations = [], doc_count = 0, doc_members = ms,
      doc_start = Some ''2022-08-07T08:08:21.000Z'', doc_end = None\<rparr>"

text \<open>
  A connected ingestor of stream \<open>s\<close> with the given page size and timestamp
  path, whose first window holds the given members.
\<close>

definition demo_state :: "nat option \<Rightarrow> string option \<Rightarrow> string list \<Rightarrow> state" where
  "demo_state p tp ms =
     \<lparr>mongoConnection = True, sdsStreamIdentifier = ''s'',
      priv_pageSize = p, priv_timestampPath = tp, priv_metadata = Some ''cfg'',
      metaCollection = [\<lparr>meta_id = ''s'', meta_value = ''cfg'', meta_type = SDS_Stream\<rparr>],
      dataCollection = [],
      indexCollection = [demo_root, demo_first ms]\<rparr>"

text \<open>
  The same stand-ins with one instant more, the first of the year 10000, whose
  ISO text has the expanded year \<open>+010000\<close>; and the bucket that a split at
  that instant creates.
\<close>

definition demo_parse_far :: "string \<Rightarrow> date" where
  "demo_parse_far s =
     (if s = ''+010000-01-01T00:00:00.000Z'' then ValidDate 253402300800000
      else demo_parse s)"

definition demo_iso_far :: "int \<Rightarrow> string" where
  "demo_iso_far t =
     (if t = 253402300800000 then ''+010000-01-01T00:00:00.000Z'' else demo_iso t)"

definition demo_extractDate_far :: "quad list \<Rightarrow> string \<Rightarrow> error + date" where
  "demo_extractDate_far qs p =
     (case filter (\<lambda>q. fst (snd q) = p) qs of
        [q] \<Rightarrow> Inr (demo_parse_far (fst (snd (snd q))))
      | _ \<Rightarrow> Inl ExtractionError)"

definition demo_ext_far :: externals where
  "demo_ext_far = \<lparr>extractDate = demo_extractDate_far, quadsToString = concat \<circ> map fst,
                   Date_parse = demo_parse_far, toISOString = demo_iso_far\<rparr>"

definition demo_far :: MongoFragment where
  "demo_far =
     \<lparr>doc_id = ''253402300800000'', doc_streamId = ''s'', doc_leaf = True,
      doc_relations = [], doc_count = 0, doc_members = [],
      doc_start = Some ''+010000-01-01T00:00:00.000Z'', doc_end = None\<rparr>"

section \<open>Auxiliary facts\<close>


lemmas io_defs = await_def return_def throw_def lift_def

lemma find_Some_set: "find P xs = Some x \<Longrightarrow> x \<in> set xs \<and> P x"
  by (induction xs) (auto split: if_splits)

lemma find_None_set: "find P xs = None \<longleftrightarrow> (\<forall>x\<in>set xs. \<not> P x)"
  by (induction xs) auto

subsection \<open>Updating the first match\<close>

lemma updateOne_find_None: "find P xs = None \<Longrightarrow> updateOne P f xs = xs"
  by (induction xs) (auto split: if_splits)

lemma updateOne_find_Some:
  "find P xs = Some x \<Longrightarrow>
     \<exists>i<length xs. xs ! i = x \<and> (\<forall>j<i. \<not> P (xs ! j)) \<and> updateOne P f xs = xs[i := f x]"
proof (induction xs)
  case Nil
  then show ?case by simp
next
  case (Cons y ys)
  show ?case
  proof (cases "P y")
    case True
    with Cons.prems have "y = x" by simp
    with True show ?thesis by (intro exI[of _ 0]) simp
  next
    case False
    with Cons.prems have "find P ys = Some x" by simp
    from Cons.IH[OF this] obtain i where i: "i < length ys" "ys ! i = x"
      "\<forall>j<i. \<not> P (ys ! j)" "updateOne P f ys = ys[i := f x]" by blast
    have "\<forall>j<Suc i. \<not> P ((y # ys) ! j)"
      using False i(3) by (auto simp: nth_Cons split: nat.splits)
    with i False show ?thesis by (intro exI[of _ "Suc i"]) simp
  qed
qed

lemma find_updateOne_same:
  "(\<And>x. P (f x) = P x) \<Longrightarrow> find P (updateOne P f xs) = map_option f (find P xs)"
  by (induction xs) auto

lemma find_updateOne_other:
  "(\<And>x. Q (f x) = Q x) \<Longrightarrow> (\<And>x. P x \<Longrightarrow> \<not> Q x) \<Longrightarrow> find Q (updateOne P f xs) = find Q xs"
  by (induction xs) auto

lemma map_updateOne: "(\<And>x. g (f x) = g x) \<Longrightarrow> map g (updateOne P f xs) = map g xs"
  by (induction xs) auto

lemma length_updateOne [simp]: "length (updateOne P f xs) = length xs"
  by (induction xs) auto

subsection \<open>The descending sort\<close>

lemma set_insort_desc: "set (insort_desc x xs) = insert x (set xs)"
  by (induction xs) auto

lemma set_sort_start_desc: "set (sort_start_desc xs) = set xs"
  by (induction xs) (auto simp: set_insort_desc)

lemma sorted_insort_desc:
  "sorted_wrt (\<lambda>a b. doc_start b \<le> doc_start a) xs \<Longrightarrow>
   sorted_wrt (\<lambda>a b. doc_start b \<le> doc_start a) (insort_desc x xs)"
  by (induction xs) (auto simp: set_insort_desc)

lemma sorted_sort_start_desc:
  "sorted_wrt (\<lambda>a b. doc_start b \<le> doc_start a) (sort_start_desc xs)"
  by (induction xs) (auto simp: sorted_insort_desc)

lemma sort_start_desc_head:
  assumes "sort_start_desc xs = d # ds"
  shows "d \<in> set xs \<and> (\<forall>d'\<in>set xs. doc_start d' \<le> doc_start d)"
proof -
  have "set xs = set (d # ds)" using assms set_sort_start_desc[of xs] by simp
  moreover have "sorted_wrt (\<lambda>a b. doc_start b \<le> doc_start a) (d # ds)"
    using assms sorted_sort_start_desc[of xs] by simp
  ultimately show ?thesis by auto
qed

lemma sort_start_desc_Nil: "sort_start_desc xs = [] \<longleftrightarrow> xs = []"
  using set_sort_start_desc[of xs] by (cases xs) auto

subsection \<open>What each method does on a connected ingestor\<close>

lemma getMostRecentWindow_eq:
  "mongoConnection s \<Longrightarrow>
   getMostRecentWindow ext s =
     (case sort_start_desc (filter (\<lambda>d. doc_streamId d = sdsStreamIdentifier s) (indexCollection s)) of
        [] \<Rightarrow> (Inl NotFoundError, s)
      | d # _ \<Rightarrow> (Inr (documentToWindow ext d), s))"
  by (simp add: getMostRecentWindow_def dbIndexCollection_def io_defs split: list.splits)

lemma getMostRecentWindow_Inr:
  assumes "fst (getMostRecentWindow ext s) = Inr cw"
  shows "getMostRecentWindow ext s = (Inr cw, s)" and "mongoConnection s"
    and "\<exists>d. cw = documentToWindow ext d"
  using assms
  by (auto simp: getMostRecentWindow_def dbIndexCollection_def io_defs
      split: option.splits list.splits if_splits)

lemma bucketSize_eq:
  "mongoConnection s \<Longrightarrow>
   bucketSize window s =
     (case find (bucketFilter (sdsStreamIdentifier s) (w_identifier window)) (indexCollection s) of
        None \<Rightarrow> (Inl NotFoundError, s)
      | Some b \<Rightarrow> (Inr (length (doc_members b)), s))"
  by (simp add: bucketSize_def dbIndexCollection_def io_defs findOne_def split: option.splits)

lemma bucketSize_Inr:
  assumes "fst (bucketSize cw s) = Inr n"
  shows "bucketSize cw s = (Inr n, s)"
    and "\<exists>b. find (bucketFilter (sdsStreamIdentifier s) (w_identifier cw)) (indexCollection s) = Some b
            \<and> n = length (doc_members b)"
  using assms
  by (auto simp: bucketSize_def dbIndexCollection_def io_defs findOne_def
      split: option.splits if_splits)

lemma createBucket_eq:
  "mongoConnection s \<Longrightarrow>
   createBucket k s =
     (Inr (), s\<lparr>indexCollection := indexCollection s @
       [\<lparr>doc_id = k, doc_streamId = sdsStreamIdentifier s, doc_leaf = True,
         doc_relations = [], doc_count = 0, doc_members = [],
         doc_start = None, doc_end = None\<rparr>]\<rparr>)"
  by (simp add: createBucket_def dbIndexCollection_def putIndexCollection_def io_defs insertOne_def)

lemma addRelationsToBucket_eq:
  "mongoConnection s \<Longrightarrow>
   addRelationsToBucket k rels s =
     (Inr (), s\<lparr>indexCollection := updateOne (bucketFilter (sdsStreamIdentifier s) k)
          (\<lambda>d. d\<lparr>doc_relations := doc_relations d @ rels\<rparr>) (indexCollection s)\<rparr>)"
  by (simp add: addRelationsToBucket_def dbIndexCollection_def putIndexCollection_def io_defs)

lemma addMemberstoBucket_eq:
  "mongoConnection s \<Longrightarrow>
   addMemberstoBucket k ids s =
     (Inr (), s\<lparr>indexCollection := updateOne (bucketFilter (sdsStreamIdentifier s) k)
          (\<lambda>d. d\<lparr>doc_members := doc_members d @ ids\<rparr>) (indexCollection s)\<rparr>)"
  by (simp add: addMemberstoBucket_def dbIndexCollection_def putIndexCollection_def io_defs)

lemma storeMember_eq:
  "mongoConnection s \<Longrightarrow>
   storeMember ext m s =
     (Inr (), s\<lparr>dataCollection := dataCollection s @
         [\<lparr>data_id = member_id m, data_data = quadsToString ext (member_quads m)\<rparr>]\<rparr>)"
  by (simp add: storeMember_def storeMembers_def dbDataCollection_def putDataCollection_def
      io_defs insertMany_def Let_def)

lemma windowParam_simps:
  "windowParam ext None s = (Inr None, s)"
  "windowParam ext (Some (ValidDate t)) s = (Inr (Some (toISOString ext t)), s)"
  "windowParam ext (Some InvalidDate) s = (Inl RangeError, s)"
  by (simp_all add: windowParam_def date_toISOString_def io_defs)

lemma timestampPath_Some:
  "priv_timestampPath s = Some p \<Longrightarrow> p \<noteq> [] \<Longrightarrow> timestampPath s = (Inr p, s)"
  by (simp add: timestampPath_def)

lemma timestampPath_unset:
  "priv_timestampPath s = None \<or> priv_timestampPath s = Some [] \<Longrightarrow>
   timestampPath s = (Inl ConfigurationError, s)"
  by (auto simp: timestampPath_def)


subsection \<open>The split branch of \<open>append\<close>\<close>

lemma doc_members_setWindowParams [simp]:
  "doc_members (setWindowParams a b d) = doc_members d"
  by (simp add: setWindowParams_def Let_def split: option.splits)

lemma bucketFilter_setWindowParams [simp]:
  "bucketFilter sid k (setWindowParams a b d) = bucketFilter sid k d"
  by (simp add: setWindowParams_def bucketFilter_def Let_def split: option.splits)

lemma updateWindow_eq:
  "mongoConnection s \<Longrightarrow>
   updateWindow ext window s =
     (case windowParam ext (w_start window) s of
        (Inl e, _) \<Rightarrow> (Inl e, s)
      | (Inr a, _) \<Rightarrow>
          (case windowParam ext (w_end window) s of
             (Inl e, _) \<Rightarrow> (Inl e, s)
           | (Inr b, _) \<Rightarrow>
               (Inr (), s\<lparr>indexCollection :=
                  updateOne (bucketFilter (sdsStreamIdentifier s) (w_identifier window))
                    (setWindowParams a b) (indexCollection s)\<rparr>)))"
  by (cases "w_start window"; cases "w_end window";
      (cases "the (w_start window)")?; (cases "the (w_end window)")?)
     (simp_all add: updateWindow_def await_def windowParam_simps dbIndexCollection_def
        putIndexCollection_def)

lemma append_split:
  fixes s ext member currentWindow p
  defines "sid \<equiv> sdsStreamIdentifier s"
  defines "bucket \<equiv> (\<lambda>k. \<lparr>doc_id = k, doc_streamId = sid, doc_leaf = True,
         doc_relations = [], doc_count = 0, doc_members = [],
         doc_start = None, doc_end = None\<rparr>)"
  assumes g: "fst (getMostRecentWindow ext s) = Inr currentWindow"
      and b: "fst (bucketSize currentWindow s) = Inr n"
      and full: "pageSize s < enat (n + 1)"
      and tp: "priv_timestampPath s = Some p" "p \<noteq> []"
  shows "append ext member s =
    (case extractDate ext (member_quads member) p of
       Inl e \<Rightarrow> (Inl e, s)
     | Inr InvalidDate \<Rightarrow>
         (Inl RangeError, s\<lparr>indexCollection := indexCollection s @ [bucket ''NaN'']\<rparr>)
     | Inr (ValidDate t) \<Rightarrow>
         (let idx2 =
            updateOne (bucketFilter sid root)
              (\<lambda>d. d\<lparr>doc_relations := doc_relations d @
                 [\<lparr>rel_type = GreaterThanOrEqualTo, rel_value = toISOString ext t,
                   rel_path = p, rel_bucket = numberToString t\<rparr>]\<rparr>)
              (updateOne (bucketFilter sid (numberToString t))
                 (setWindowParams (Some (toISOString ext t)) None)
                 (indexCollection s @ [bucket (numberToString t)]))
          in (case w_start currentWindow of
                Some InvalidDate \<Rightarrow> (Inl RangeError, s\<lparr>indexCollection := idx2\<rparr>)
              | other \<Rightarrow>
                  (Inr (), s\<lparr>indexCollection :=
                     updateOne (bucketFilter sid root)
                       (\<lambda>d. d\<lparr>doc_relations := doc_relations d @
                          [\<lparr>rel_type = LessThan, rel_value = toISOString ext t,
                            rel_path = p, rel_bucket = w_identifier currentWindow\<rparr>]\<rparr>)
                       (updateOne (bucketFilter sid (w_identifier currentWindow))
                          (setWindowParams
                             (case other of Some (ValidDate t0) \<Rightarrow> Some (toISOString ext t0)
                                | _ \<Rightarrow> None)
                             (Some (toISOString ext t)))
                          idx2)\<rparr>))))"
proof -
  note g' = getMostRecentWindow_Inr[OF g]
  note b' = bucketSize_Inr[OF b]
  have conn: "mongoConnection s" by (rule g'(2))
  have tps: "\<And>x. timestampPath (s\<lparr>indexCollection := x\<rparr>) = (Inr p, s\<lparr>indexCollection := x\<rparr>)"
    using tp by (simp add: timestampPath_def)
  have tps0: "timestampPath s = (Inr p, s)"
    using tp by (simp add: timestampPath_def)
  from g'(3) obtain d0 where d0: "w_start currentWindow = Some d0" "w_end currentWindow = Some d0"
    by (auto simp: documentToWindow_def)
  show ?thesis
  proof (cases "extractDate ext (member_quads member) p")
    case (Inl e)
    then show ?thesis
      using full by (simp add: append_def await_def g'(1) b'(1) tps0 lift_def)
  next
    case (Inr memberDate)
    show ?thesis
    proof (cases memberDate)
      case InvalidDate
      then show ?thesis
        using full Inr conn
        by (simp add: append_def await_def g'(1) b'(1) tps0 lift_def createWindow_def
            createBucket_eq windowParam_simps date_valueOf_string_def sid_def bucket_def Let_def)
    next
      case (ValidDate t)
      show ?thesis
      proof (cases d0)
        case InvalidDate
        then show ?thesis
          using full Inr conn ValidDate d0
          by (simp add: append_def await_def g'(1) b'(1) tps0 tps lift_def createWindow_def
            createBucket_eq windowParam_simps date_valueOf_string_def sid_def bucket_def Let_def
            dbIndexCollection_def putIndexCollection_def addWindowToRoot_def
            date_toISOString_def return_def throw_def addRelationsToBucket_eq updateWindow_eq)
      next
        case (ValidDate t0)
        then show ?thesis
          using full Inr conn \<open>memberDate = ValidDate t\<close> d0
          by (simp add: append_def await_def g'(1) b'(1) tps0 tps lift_def createWindow_def
            createBucket_eq windowParam_simps date_valueOf_string_def sid_def bucket_def Let_def
            dbIndexCollection_def putIndexCollection_def addWindowToRoot_def
            date_toISOString_def return_def throw_def addRelationsToBucket_eq updateWindow_eq)
      qed
    qed
  qed
qed


lemma append_split_unset:
  assumes "fst (getMostRecentWindow ext s) = Inr currentWindow"
      and "fst (bucketSize currentWindow s) = Inr n"
      and "pageSize s < enat (n + 1)"
      and "priv_timestampPath s = None \<or> priv_timestampPath s = Some []"
  shows "append ext member s = (Inl ConfigurationError, s)"
  using assms(3)
  by (simp add: append_def await_def getMostRecentWindow_Inr(1)[OF assms(1)]
      bucketSize_Inr(1)[OF assms(2)] timestampPath_unset[OF assms(4)])

lemma state_indexCollection_same: "s\<lparr>indexCollection := indexCollection s\<rparr> = (s::state)"
  by simp

lemma append_split_frame:
  assumes g: "fst (getMostRecentWindow ext s) = Inr currentWindow"
      and b: "fst (bucketSize currentWindow s) = Inr n"
      and full: "pageSize s < enat (n + 1)"
  shows "snd (append ext member s)
           = s\<lparr>indexCollection := indexCollection (snd (append ext member s))\<rparr>
       \<and> (map doc_members (indexCollection (snd (append ext member s)))
             = map doc_members (indexCollection s)
          \<or> map doc_members (indexCollection (snd (append ext member s)))
             = map doc_members (indexCollection s) @ [Nil])"
proof (cases "priv_timestampPath s = None \<or> priv_timestampPath s = Some []")
  case True
  show ?thesis
    by (simp add: append_split_unset[OF g b full True])
next
  case False
  then obtain p where p: "priv_timestampPath s = Some p" "p \<noteq> []" by auto
  note eq = append_split[OF g b full p, of member]
  show ?thesis
  proof (cases "extractDate ext (member_quads member) p")
    case (Inl e)
    then show ?thesis by (simp add: eq)
  next
    case (Inr memberDate)
    show ?thesis
    proof (cases memberDate)
      case InvalidDate
      with Inr show ?thesis by (simp add: eq)
    next
      case (ValidDate t)
      with Inr show ?thesis
        by (simp add: eq Let_def map_updateOne split: option.splits date.splits)
    qed
  qed
qed

subsection \<open>The storing branch of \<open>append\<close> and the page size\<close>

lemma append_store:
  assumes "fst (getMostRecentWindow ext s) = Inr currentWindow"
      and "fst (bucketSize currentWindow s) = Inr n"
      and "enat (n + 1) \<le> pageSize s"
  shows "append ext member s =
     (Inr (), s\<lparr>dataCollection := dataCollection s @
                   [\<lparr>data_id = member_id member,
                     data_data = quadsToString ext (member_quads member)\<rparr>],
                indexCollection :=
                  updateOne (bucketFilter (sdsStreamIdentifier s) (w_identifier currentWindow))
                    (\<lambda>d. d\<lparr>doc_members := doc_members d @ [member_id member]\<rparr>)
                    (indexCollection s)\<rparr>)"
  using assms(3) getMostRecentWindow_Inr(2)[OF assms(1)]
  by (simp add: append_def await_def getMostRecentWindow_Inr(1)[OF assms(1)]
      bucketSize_Inr(1)[OF assms(2)] storeMember_eq addMemberstoBucket_eq not_less[symmetric])

lemma getMostRecentWindow_snd: "snd (getMostRecentWindow ext s) = s"
  by (simp add: getMostRecentWindow_def dbIndexCollection_def io_defs
      split: option.splits list.splits)

lemma bucketSize_snd: "snd (bucketSize w s) = s"
  by (simp add: bucketSize_def dbIndexCollection_def io_defs split: option.splits)

lemma append_early_error:
  "fst (getMostRecentWindow ext s) = Inl e \<Longrightarrow> append ext member s = (Inl e, s)"
  "fst (getMostRecentWindow ext s) = Inr w \<Longrightarrow> fst (bucketSize w s) = Inl e \<Longrightarrow>
     append ext member s = (Inl e, s)"
proof -
  assume "fst (getMostRecentWindow ext s) = Inl e"
  then have "getMostRecentWindow ext s = (Inl e, s)"
    using getMostRecentWindow_snd[of ext s] by (cases "getMostRecentWindow ext s") simp
  then show "append ext member s = (Inl e, s)"
    by (simp add: append_def await_def)
next
  assume a: "fst (getMostRecentWindow ext s) = Inr w" "fst (bucketSize w s) = Inl e"
  then have "bucketSize w s = (Inl e, s)"
    using bucketSize_snd[of w s] by (cases "bucketSize w s") simp
  then show "append ext member s = (Inl e, s)"
    by (simp add: append_def await_def getMostRecentWindow_Inr(1)[OF a(1)])
qed

lemma set_updateOne_members:
  assumes "find P xs = Some d" and "\<forall>x\<in>set xs. length (doc_members x) \<le> k"
      and "length (doc_members (f d)) \<le> k"
  shows "\<forall>x\<in>set (updateOne P f xs). length (doc_members x) \<le> k"
proof -
  from updateOne_find_Some[OF assms(1), of f] obtain i where
    "i < length xs" "updateOne P f xs = xs[i := f d]" by blast
  then have "set (updateOne P f xs) \<subseteq> insert (f d) (set xs)"
    by (simp add: set_update_subset_insert)
  with assms(2,3) show ?thesis by auto
qed

lemma members_bound_map:
  "(\<forall>d\<in>set xs. length (doc_members d) \<le> P) = (\<forall>ms\<in>set (map doc_members xs). length ms \<le> P)"
  by auto

lemma append_capacity:
  assumes P: "priv_pageSize s = Some P"
      and inv: "\<forall>d\<in>set (indexCollection s). length (doc_members d) \<le> P"
  shows "priv_pageSize (snd (append ext member s)) = Some P
       \<and> (\<forall>d\<in>set (indexCollection (snd (append ext member s))). length (doc_members d) \<le> P)"
proof (cases "fst (getMostRecentWindow ext s)")
  case (Inl e)
  show ?thesis using P inv by (simp add: append_early_error(1)[OF Inl])
next
  case (Inr w)
  show ?thesis
  proof (cases "fst (bucketSize w s)")
    case (Inl e)
    show ?thesis using P inv by (simp add: append_early_error(2)[OF Inr Inl])
  next
    case n: (Inr n)
    show ?thesis
    proof (cases "pageSize s < enat (n + 1)")
      case True
      from append_split_frame[OF Inr n True, of member]
      have fr: "snd (append ext member s)
           = s\<lparr>indexCollection := indexCollection (snd (append ext member s))\<rparr>"
        and mem: "map doc_members (indexCollection (snd (append ext member s)))
             = map doc_members (indexCollection s)
          \<or> map doc_members (indexCollection (snd (append ext member s)))
             = map doc_members (indexCollection s) @ [Nil]"
        by simp_all
      have "priv_pageSize (snd (append ext member s)) = Some P"
        by (subst fr) (simp add: P)
      moreover have "set (map doc_members (indexCollection (snd (append ext member s))))
                       \<subseteq> insert [] (set (map doc_members (indexCollection s)))"
        using mem by (elim disjE) (simp_all add: subset_insertI)
      then have "\<forall>d\<in>set (indexCollection (snd (append ext member s))).
                       length (doc_members d) \<le> P"
        using inv by (subst members_bound_map) auto
      ultimately show ?thesis by simp
    next
      case False
      then have le: "enat (n + 1) \<le> pageSize s" by simp
      then have nP: "n + 1 \<le> P" using P by (simp add: pageSize_def)
      from bucketSize_Inr(2)[OF n] obtain b where
        b: "find (bucketFilter (sdsStreamIdentifier s) (w_identifier w)) (indexCollection s) = Some b"
           "n = length (doc_members b)" by blast
      have "\<forall>x\<in>set (updateOne (bucketFilter (sdsStreamIdentifier s) (w_identifier w))
                    (\<lambda>d. d\<lparr>doc_members := doc_members d @ [member_id member]\<rparr>)
                    (indexCollection s)). length (doc_members x) \<le> P"
        using nP b(2) by (intro set_updateOne_members[OF b(1) inv]) simp
      then show ?thesis
        using P by (simp add: append_store[OF Inr n le])
    qed
  qed
qed

subsection \<open>Looking a bucket up after the writes of a split\<close>

lemma find_snoc:
  "find P (xs @ [x]) = (case find P xs of Some y \<Rightarrow> Some y | None \<Rightarrow> if P x then Some x else None)"
  by (induction xs) auto

lemma find_updateOne_bucket:
  assumes "\<And>d. doc_id (f d) = doc_id d" and "\<And>d. doc_streamId (f d) = doc_streamId d"
  shows "find (bucketFilter sid k) (updateOne (bucketFilter sid k') f xs) =
           (if k = k' then map_option f (find (bucketFilter sid k) xs)
            else find (bucketFilter sid k) xs)"
proof (cases "k = k'")
  case True
  then show ?thesis
    using assms by (simp add: find_updateOne_same bucketFilter_def)
next
  case False
  have "find (bucketFilter sid k) (updateOne (bucketFilter sid k') f xs)
          = find (bucketFilter sid k) xs"
    using False assms by (intro find_updateOne_other) (auto simp: bucketFilter_def)
  with False show ?thesis by simp
qed

lemma setWindowParams_fields [simp]:
  "doc_id (setWindowParams a b d) = doc_id d"
  "doc_streamId (setWindowParams a b d) = doc_streamId d"
  "doc_relations (setWindowParams a b d) = doc_relations d"
  "doc_end (setWindowParams a (Some v) d) = Some v"
  by (simp_all add: setWindowParams_def Let_def split: option.splits)

lemma natToString_not_Nil: "natToString n \<noteq> []"
  by (subst natToString.simps) simp

lemma numberToString_not_root: "numberToString t \<noteq> root"
  by (simp add: numberToString_def root_def natToString_not_Nil)

subsection \<open>The concrete stream\<close>

lemma demo_getMostRecentWindow:
  "getMostRecentWindow demo_ext (demo_state p tp ms) =
     (Inr (documentToWindow demo_ext (demo_first ms)), demo_state p tp ms)"
  by (simp add: getMostRecentWindow_eq demo_state_def demo_root_def demo_first_def)

lemma demo_window:
  "documentToWindow demo_ext (demo_first ms) =
     \<lparr>w_identifier = ''1659859701000'', w_memberIdentifiers = Some ms,
      w_start = Some (ValidDate 1659859701000), w_end = Some (ValidDate 1659859701000)\<rparr>"
  by (simp add: documentToWindow_def demo_first_def newDate_def demo_ext_def demo_parse_def)

lemma demo_bucketSize:
  "w_identifier w = ''1659859701000'' \<Longrightarrow>
   bucketSize w (demo_state p tp ms) = (Inr (length ms), demo_state p tp ms)"
  by (simp add: bucketSize_eq demo_state_def demo_root_def demo_first_def bucketFilter_def)

lemma demo_full:
  "fst (getMostRecentWindow demo_ext (demo_state (Some 1) tp [''m1'']))
     = Inr (documentToWindow demo_ext (demo_first [''m1'']))"
  "fst (bucketSize (documentToWindow demo_ext (demo_first [''m1'']))
         (demo_state (Some 1) tp [''m1''])) = Inr 1"
  "pageSize (demo_state (Some 1) tp [''m1'']) < enat (1 + 1)"
proof -
  show "fst (getMostRecentWindow demo_ext (demo_state (Some 1) tp [''m1'']))
     = Inr (documentToWindow demo_ext (demo_first [''m1'']))"
    by (simp add: demo_getMostRecentWindow)
  show "fst (bucketSize (documentToWindow demo_ext (demo_first [''m1'']))
         (demo_state (Some 1) tp [''m1''])) = Inr 1"
    by (simp add: demo_bucketSize demo_window)
  show "pageSize (demo_state (Some 1) tp [''m1'']) < enat (1 + 1)"
    by (simp add: pageSize_def demo_state_def)
qed

lemma demo_path_set:
  "priv_timestampPath (demo_state ps (Some demo_path) ms) = Some demo_path" "demo_path \<noteq> []"
  by (simp_all add: demo_state_def demo_path_def)

lemma demo_numberToString:
  "numberToString 1659859701000 = ''1659859701000''"
  "numberToString 1659859702000 = ''1659859702000''"
  by (simp_all add: numberToString_def natToString.simps)

lemma demo_extract:
  "extractDate demo_ext (member_quads (demo_member i ''2022-08-07T08:08:22.000Z'')) demo_path
     = Inr (ValidDate 1659859702000)"
  "extractDate demo_ext (member_quads (demo_member i ''2022-08-07T08:08:21.000Z'')) demo_path
     = Inr (ValidDate 1659859701000)"
  "extractDate demo_ext [] demo_path = Inl ExtractionError"
  by (simp_all add: demo_ext_def demo_extractDate_def demo_member_def demo_parse_def)

lemma demo_split_fresh:
  "append demo_ext (demo_member ''m2'' ''2022-08-07T08:08:22.000Z'')
     (demo_state (Some 1) (Some demo_path) [''m1''])
   = (Inr (), (demo_state (Some 1) (Some demo_path) [''m1''])\<lparr>indexCollection :=
        [demo_root\<lparr>doc_relations := doc_relations demo_root @
           [\<lparr>rel_type = GreaterThanOrEqualTo, rel_value = ''2022-08-07T08:08:22.000Z'',
             rel_path = demo_path, rel_bucket = ''1659859702000''\<rparr>,
            \<lparr>rel_type = LessThan, rel_value = ''2022-08-07T08:08:22.000Z'',
             rel_path = demo_path, rel_bucket = ''1659859701000''\<rparr>]\<rparr>,
         (demo_first [''m1''])\<lparr>doc_end := Some ''2022-08-07T08:08:22.000Z''\<rparr>,
         \<lparr>doc_id = ''1659859702000'', doc_streamId = ''s'', doc_leaf = True,
          doc_relations = [], doc_count = 0, doc_members = [],
          doc_start = Some ''2022-08-07T08:08:22.000Z'', doc_end = None\<rparr>]\<rparr>)"
  by (subst append_split[OF demo_full(1) demo_full(2) demo_full(3) demo_path_set(1)
        demo_path_set(2)])
     (simp add: demo_extract demo_numberToString demo_window Let_def,
      simp add: demo_state_def demo_root_def demo_first_def bucketFilter_def root_def
        setWindowParams_def demo_ext_def demo_iso_def)

lemma demo_split_duplicate:
  "append demo_ext (demo_member ''m2'' ''2022-08-07T08:08:21.000Z'')
     (demo_state (Some 1) (Some demo_path) [''m1''])
   = (Inr (), (demo_state (Some 1) (Some demo_path) [''m1''])\<lparr>indexCollection :=
        [demo_root\<lparr>doc_relations := doc_relations demo_root @
           [\<lparr>rel_type = GreaterThanOrEqualTo, rel_value = ''2022-08-07T08:08:21.000Z'',
             rel_path = demo_path, rel_bucket = ''1659859701000''\<rparr>,
            \<lparr>rel_type = LessThan, rel_value = ''2022-08-07T08:08:21.000Z'',
             rel_path = demo_path, rel_bucket = ''1659859701000''\<rparr>]\<rparr>,
         (demo_first [''m1''])\<lparr>doc_end := Some ''2022-08-07T08:08:21.000Z''\<rparr>,
         \<lparr>doc_id = ''1659859701000'', doc_streamId = ''s'', doc_leaf = True,
          doc_relations = [], doc_count = 0, doc_members = [],
          doc_start = None, doc_end = None\<rparr>]\<rparr>)"
  by (subst append_split[OF demo_full(1) demo_full(2) demo_full(3) demo_path_set(1)
        demo_path_set(2)])
     (simp add: demo_extract demo_numberToString demo_window Let_def,
      simp add: demo_state_def demo_root_def demo_first_def bucketFilter_def root_def
        setWindowParams_def demo_ext_def demo_iso_def)

lemma demo_split_no_timestamp:
  "append demo_ext \<lparr>member_id = ''m2'', member_quads = []\<rparr>
     (demo_state (Some 1) (Some demo_path) [''m1''])
   = (Inl ExtractionError, demo_state (Some 1) (Some demo_path) [''m1''])"
  by (subst append_split[OF demo_full(1) demo_full(2) demo_full(3) demo_path_set(1)
        demo_path_set(2)])
     (simp add: demo_extract)

subsection \<open>A split at an instant of the year 10000\<close>

lemma far_below:
  "Some ''+010000-01-01T00:00:00.000Z'' \<le> Some ''2022-08-07T08:08:21.000Z''"
  "\<not> Some ''2022-08-07T08:08:21.000Z'' \<le> Some ''+010000-01-01T00:00:00.000Z''"
  by (simp_all add: less_eq_char_def less_char_def)

lemma demo_far_number: "numberToString 253402300800000 = ''253402300800000''"
  by (simp add: numberToString_def natToString.simps)


lemma demo_far_window:
  "documentToWindow demo_ext_far (demo_first ms) =
     \<lparr>w_identifier = ''1659859701000'', w_memberIdentifiers = Some ms,
      w_start = Some (ValidDate 1659859701000), w_end = Some (ValidDate 1659859701000)\<rparr>"
  "w_start (documentToWindow demo_ext_far demo_far) = Some (ValidDate 253402300800000)"
  by (simp_all add: documentToWindow_def demo_first_def demo_far_def newDate_def demo_ext_far_def
      demo_parse_far_def demo_parse_def)

lemma demo_far_full:
  "fst (getMostRecentWindow demo_ext_far (demo_state (Some 1) tp [''m1'']))
     = Inr (documentToWindow demo_ext_far (demo_first [''m1'']))"
  "fst (bucketSize (documentToWindow demo_ext_far (demo_first [''m1'']))
         (demo_state (Some 1) tp [''m1''])) = Inr 1"
proof -
  show "fst (getMostRecentWindow demo_ext_far (demo_state (Some 1) tp [''m1'']))
     = Inr (documentToWindow demo_ext_far (demo_first [''m1'']))"
    by (simp add: getMostRecentWindow_eq demo_state_def demo_root_def demo_first_def)
  show "fst (bucketSize (documentToWindow demo_ext_far (demo_first [''m1'']))
         (demo_state (Some 1) tp [''m1''])) = Inr 1"
    by (simp add: demo_bucketSize demo_far_window)
qed

lemma demo_far_extract:
  "extractDate demo_ext_far (member_quads (demo_member i ''+010000-01-01T00:00:00.000Z''))
     demo_path = Inr (ValidDate 253402300800000)"
  by (simp add: demo_ext_far_def demo_extractDate_far_def demo_member_def demo_parse_far_def)

lemma demo_far_split:
  "append demo_ext_far (demo_member ''m2'' ''+010000-01-01T00:00:00.000Z'')
     (demo_state (Some 1) (Some demo_path) [''m1''])
   = (Inr (), (demo_state (Some 1) (Some demo_path) [''m1''])\<lparr>indexCollection :=
        [demo_root\<lparr>doc_relations := doc_relations demo_root @
           [\<lparr>rel_type = GreaterThanOrEqualTo, rel_value = ''+010000-01-01T00:00:00.000Z'',
             rel_path = demo_path, rel_bucket = ''253402300800000''\<rparr>,
            \<lparr>rel_type = LessThan, rel_value = ''+010000-01-01T00:00:00.000Z'',
             rel_path = demo_path, rel_bucket = ''1659859701000''\<rparr>]\<rparr>,
         (demo_first [''m1''])\<lparr>doc_end := Some ''+010000-01-01T00:00:00.000Z''\<rparr>,
         demo_far]\<rparr>)"
  by (subst append_split[OF demo_far_full(1) demo_far_full(2) demo_full(3) demo_path_set(1)
        demo_path_set(2)])
     (simp add: demo_far_extract demo_far_number demo_far_window Let_def,
      simp add: demo_state_def demo_root_def demo_first_def demo_far_def bucketFilter_def root_def
        setWindowParams_def demo_ext_far_def demo_iso_far_def demo_iso_def)

lemma demo_far_most_recent:
  "getMostRecentWindow demo_ext_far
     ((demo_state p tp [''m1''])\<lparr>indexCollection :=
        [r, (demo_first [''m1''])\<lparr>doc_end := e\<rparr>, demo_far]\<rparr>)
   = (Inr (documentToWindow demo_ext_far (demo_first [''m1''])),
      (demo_state p tp [''m1''])\<lparr>indexCollection :=
        [r, (demo_first [''m1''])\<lparr>doc_end := e\<rparr>, demo_far]\<rparr>)"
  if "doc_streamId r = ''s''" "doc_start r = None"
  using that
  by (simp add: getMostRecentWindow_eq demo_state_def demo_first_def demo_far_def
      less_eq_char_def less_char_def documentToWindow_def)

subsection \<open>The bootstrap and sequences of members\<close>

lemma initialise_existing:
  assumes "findOne (\<lambda>m. meta_id m = sdsStreamIdentifier s) (metaCollection s) = Some m0"
  shows "initialise sdsMetadata s = (Inr (), s\<lparr>mongoConnection := True\<rparr>)"
  using assms
  by (simp add: initialise_def io_defs dbMetaCollection_def Let_def)

lemma instantiate_after_initialise:
  assumes "initialise (Some config) s = (Inr (), s1)" and "mongoConnection s1"
  shows "metaCollection (snd (instantiate ext config s)) = metaCollection s1
       \<and> dataCollection (snd (instantiate ext config s)) = dataCollection s1
       \<and> (findOne (bucketFilter (sdsStreamIdentifier s1) root) (indexCollection s1) \<noteq> None \<longrightarrow>
            instantiate ext config s =
              (Inr (), s1\<lparr>priv_pageSize := Some 50,
                     priv_timestampPath := Some ''http://www.w3.org/ns/sosa/resultTime'',
                     priv_metadata := Some config\<rparr>))"
proof -
  let ?s2 = "s1\<lparr>priv_pageSize := Some 50,
                 priv_timestampPath := Some ''http://www.w3.org/ns/sosa/resultTime'',
                 priv_metadata := Some config\<rparr>"
  have tp: "\<And>x. timestampPath (?s2\<lparr>indexCollection := x\<rparr>)
              = (Inr ''http://www.w3.org/ns/sosa/resultTime'', ?s2\<lparr>indexCollection := x\<rparr>)"
    by (simp add: timestampPath_def)
  show ?thesis
  proof (cases "findOne (bucketFilter (sdsStreamIdentifier s1) root) (indexCollection s1)")
    case (Some r)
    then show ?thesis
      using assms
      by (simp add: instantiate_def await_def bucketExists_def dbIndexCollection_def return_def
          Let_def)
  next
    case None
    show ?thesis
    proof (cases "newDate ext (Some ''2022-08-07T08:08:21Z'')")
      case InvalidDate
      with None assms show ?thesis
        by (simp add: instantiate_def await_def bucketExists_def dbIndexCollection_def return_def
            Let_def createBucket_eq createWindow_def windowParam_simps)
    next
      case (ValidDate t)
      with None assms show ?thesis
        by (simp add: instantiate_def await_def bucketExists_def dbIndexCollection_def return_def
            Let_def createBucket_eq createWindow_def windowParam_simps putIndexCollection_def
            addWindowToRoot_def date_toISOString_def tp addRelationsToBucket_eq)
    qed
  qed
qed

lemma publish_capacity_all:
  assumes "priv_pageSize s = Some P"
      and "\<forall>d\<in>set (indexCollection s). length (doc_members d) \<le> P"
  shows "priv_pageSize (snd (publish ext members s)) = Some P
       \<and> (\<forall>d\<in>set (indexCollection (snd (publish ext members s))). length (doc_members d) \<le> P)"
  using assms
proof (induction members arbitrary: s)
  case Nil
  then show ?case by (simp add: return_def)
next
  case (Cons m ms)
  note step = append_capacity[OF Cons.prems, of ext m]
  show ?case
  proof (cases "append ext m s")
    case (Pair r s')
    with step have s': "priv_pageSize s' = Some P"
      "\<forall>d\<in>set (indexCollection s'). length (doc_members d) \<le> P" by simp_all
    show ?thesis
    proof (cases r)
      case (Inl e)
      with Pair s' show ?thesis by (simp add: await_def)
    next
      case (Inr u)
      with Pair Cons.IH[OF s'] show ?thesis by (simp add: await_def)
    qed
  qed
qed

lemma initialise_cases:
  "(\<exists>m0. findOne (\<lambda>m. meta_id m = sdsStreamIdentifier s) (metaCollection s) = Some m0
         \<and> initialise md s = (Inr (), s\<lparr>mongoConnection := True\<rparr>))
   \<or> initialise md s = (Inl ConfigurationError, s\<lparr>mongoConnection := True\<rparr>)
   \<or> (\<exists>v. md = Some v \<and> v \<noteq> []
         \<and> findOne (\<lambda>m. meta_id m = sdsStreamIdentifier s) (metaCollection s) = None
         \<and> initialise md s =
           (Inr (), s\<lparr>mongoConnection := True,
                   metaCollection := metaCollection s @
                     [\<lparr>meta_id = sdsStreamIdentifier s, meta_value = v,
                       meta_type = SDS_Stream\<rparr>]\<rparr>))"
  by (cases "findOne (\<lambda>m. meta_id m = sdsStreamIdentifier s) (metaCollection s)"; cases md)
     (auto simp: initialise_def io_defs dbMetaCollection_def putMetaCollection_def insertOne_def
        Let_def)

lemma instantiate_index:
  assumes "initialise (Some config) s = (Inr (), s1)" and "mongoConnection s1"
  shows "set (map doc_members (indexCollection (snd (instantiate ext config s))))
           \<subseteq> insert [] (set (map doc_members (indexCollection s1)))"
proof -
  let ?s2 = "s1\<lparr>priv_pageSize := Some 50,
                 priv_timestampPath := Some ''http://www.w3.org/ns/sosa/resultTime'',
                 priv_metadata := Some config\<rparr>"
  have tp: "\<And>x. timestampPath (?s2\<lparr>indexCollection := x\<rparr>)
              = (Inr ''http://www.w3.org/ns/sosa/resultTime'', ?s2\<lparr>indexCollection := x\<rparr>)"
    by (simp add: timestampPath_def)
  show ?thesis
  proof (cases "findOne (bucketFilter (sdsStreamIdentifier s1) root) (indexCollection s1)")
    case (Some r)
    then show ?thesis
      using assms
      by (auto simp: instantiate_def await_def bucketExists_def dbIndexCollection_def return_def
          Let_def)
  next
    case None
    show ?thesis
    proof (cases "newDate ext (Some ''2022-08-07T08:08:21Z'')")
      case InvalidDate
      with None assms show ?thesis
        by (auto simp: instantiate_def await_def bucketExists_def dbIndexCollection_def return_def
            Let_def createBucket_eq createWindow_def windowParam_simps)
    next
      case (ValidDate t)
      with None assms show ?thesis
        by (auto simp: instantiate_def await_def bucketExists_def dbIndexCollection_def return_def
            Let_def createBucket_eq createWindow_def windowParam_simps putIndexCollection_def
            addWindowToRoot_def date_toISOString_def tp addRelationsToBucket_eq map_updateOne)
    qed
  qed
qed

lemma instantiate_members:
  "set (map doc_members (indexCollection (snd (instantiate ext config s))))
     \<subseteq> insert [] (set (map doc_members (indexCollection s)))"
proof -
  from initialise_cases[where md = "Some config" and s = s]
  consider (ok) s1 where "initialise (Some config) s = (Inr (), s1)" "mongoConnection s1"
      "indexCollection s1 = indexCollection s"
    | (err) "initialise (Some config) s = (Inl ConfigurationError, s\<lparr>mongoConnection := True\<rparr>)"
    by auto
  then show ?thesis
  proof cases
    case ok
    from instantiate_index[OF ok(1,2), of ext] ok(3) show ?thesis by simp
  next
    case err
    then show ?thesis by (auto simp: instantiate_def await_def)
  qed
qed

lemma instantiate_capacity:
  assumes "\<forall>d\<in>set (indexCollection s). length (doc_members d) \<le> P"
  shows "\<forall>d\<in>set (indexCollection (snd (instantiate ext config s))). length (doc_members d) \<le> P"
  using instantiate_members[of ext config s] assms
  by (subst members_bound_map) auto


lemma instantiate_eq:
  assumes "initialise (Some config) s = (Inr (), s1)" and "mongoConnection s1"
  shows "instantiate ext config s =
     (if findOne (bucketFilter (sdsStreamIdentifier s1) root) (indexCollection s1) \<noteq> None
      then (Inr (), s1\<lparr>priv_pageSize := Some 50,
                 priv_timestampPath := Some ''http://www.w3.org/ns/sosa/resultTime'',
                 priv_metadata := Some config\<rparr>)
      else (case newDate ext (Some ''2022-08-07T08:08:21Z'') of
              InvalidDate \<Rightarrow>
                (Inl RangeError,
                 s1\<lparr>priv_pageSize := Some 50,
                    priv_timestampPath := Some ''http://www.w3.org/ns/sosa/resultTime'',
                    priv_metadata := Some config,
                    indexCollection := indexCollection s1 @
                      [\<lparr>doc_id = root, doc_streamId = sdsStreamIdentifier s1, doc_leaf = True,
                        doc_relations = [], doc_count = 0, doc_members = [],
                        doc_start = None, doc_end = None\<rparr>,
                       \<lparr>doc_id = ''NaN'', doc_streamId = sdsStreamIdentifier s1, doc_leaf = True,
                        doc_relations = [], doc_count = 0, doc_members = [],
                        doc_start = None, doc_end = None\<rparr>]\<rparr>)
            | ValidDate t \<Rightarrow>
                (Inr (),
                 s1\<lparr>priv_pageSize := Some 50,
                    priv_timestampPath := Some ''http://www.w3.org/ns/sosa/resultTime'',
                    priv_metadata := Some config,
                    indexCollection :=
                      updateOne (bucketFilter (sdsStreamIdentifier s1) root)
                        (\<lambda>d. d\<lparr>doc_relations := doc_relations d @
                           [\<lparr>rel_type = GreaterThanOrEqualTo, rel_value = toISOString ext t,
                             rel_path = ''http://www.w3.org/ns/sosa/resultTime'',
                             rel_bucket = numberToString t\<rparr>]\<rparr>)
                        (updateOne (bucketFilter (sdsStreamIdentifier s1) (numberToString t))
                           (setWindowParams (Some (toISOString ext t)) None)
                           (indexCollection s1 @
                             [\<lparr>doc_id = root, doc_streamId = sdsStreamIdentifier s1,
                               doc_leaf = True, doc_relations = [], doc_count = 0,
                               doc_members = [], doc_start = None, doc_end = None\<rparr>,
                              \<lparr>doc_id = numberToString t, doc_streamId = sdsStreamIdentifier s1,
                               doc_leaf = True, doc_relations = [], doc_count = 0,
                               doc_members = [], doc_start = None, doc_end = None\<rparr>]))\<rparr>)))"
proof -
  let ?s2 = "s1\<lparr>priv_pageSize := Some 50,
                 priv_timestampPath := Some ''http://www.w3.org/ns/sosa/resultTime'',
                 priv_metadata := Some config\<rparr>"
  have tp: "\<And>x. timestampPath (?s2\<lparr>indexCollection := x\<rparr>)
              = (Inr ''http://www.w3.org/ns/sosa/resultTime'', ?s2\<lparr>indexCollection := x\<rparr>)"
    by (simp add: timestampPath_def)
  show ?thesis
  proof (cases "findOne (bucketFilter (sdsStreamIdentifier s1) root) (indexCollection s1)")
    case (Some r)
    then show ?thesis
      using assms
      by (simp add: instantiate_def await_def bucketExists_def dbIndexCollection_def return_def
          Let_def)
  next
    case None
    show ?thesis
    proof (cases "newDate ext (Some ''2022-08-07T08:08:21Z'')")
      case InvalidDate
      with None assms show ?thesis
        by (simp add: instantiate_def await_def bucketExists_def dbIndexCollection_def return_def
            Let_def createBucket_eq createWindow_def windowParam_simps date_valueOf_string_def)
    next
      case (ValidDate t)
      with None assms show ?thesis
        by (simp add: instantiate_def await_def bucketExists_def dbIndexCollection_def return_def
            Let_def createBucket_eq createWindow_def windowParam_simps putIndexCollection_def
            addWindowToRoot_def date_toISOString_def tp addRelationsToBucket_eq
            date_valueOf_string_def)
    qed
  qed
qed

lemma instantiate_success:
  assumes "instantiate ext config s = (Inr (), s')"
  shows "mongoConnection s' \<and> priv_pageSize s' = Some 50
       \<and> priv_timestampPath s' = Some ''http://www.w3.org/ns/sosa/resultTime''
       \<and> priv_metadata s' = Some config
       \<and> findOne (\<lambda>m. meta_id m = sdsStreamIdentifier s') (metaCollection s') \<noteq> None
       \<and> findOne (bucketFilter (sdsStreamIdentifier s') root) (indexCollection s') \<noteq> None"
proof -
  from initialise_cases[where md = "Some config" and s = s]
  consider (ok) s1 where "initialise (Some config) s = (Inr (), s1)" "mongoConnection s1"
      "findOne (\<lambda>m. meta_id m = sdsStreamIdentifier s1) (metaCollection s1) \<noteq> None"
    | (err) "initialise (Some config) s = (Inl ConfigurationError, s\<lparr>mongoConnection := True\<rparr>)"
  proof (elim disjE exE conjE, goal_cases)
    case (1 m0)
    from 1(1)[of "s\<lparr>mongoConnection := True\<rparr>"] 1(3,4) show ?case by simp
  next
    case 2
    then show ?case by blast
  next
    case (3 v)
    have "findOne (\<lambda>m. meta_id m = sdsStreamIdentifier s) (metaCollection s @
                     [\<lparr>meta_id = sdsStreamIdentifier s, meta_value = v,
                       meta_type = SDS_Stream\<rparr>]) \<noteq> None"
      by (simp add: findOne_def find_snoc split: option.splits)
    with 3(1)[OF 3(6)] show ?case by simp
  qed
  then show ?thesis
  proof cases
    case ok
    note eq = instantiate_eq[OF ok(1,2), of ext]
    show ?thesis
    proof (cases "findOne (bucketFilter (sdsStreamIdentifier s1) root) (indexCollection s1)")
      case (Some r)
      with assms eq ok show ?thesis by auto
    next
      case None
      show ?thesis
      proof (cases "newDate ext (Some ''2022-08-07T08:08:21Z'')")
        case InvalidDate
        with None assms eq show ?thesis by simp
      next
        case (ValidDate t)
        have "find (bucketFilter (sdsStreamIdentifier s1) root)
               (updateOne (bucketFilter (sdsStreamIdentifier s1) root)
                        (\<lambda>d. d\<lparr>doc_relations := doc_relations d @
                           [\<lparr>rel_type = GreaterThanOrEqualTo, rel_value = toISOString ext t,
                             rel_path = ''http://www.w3.org/ns/sosa/resultTime'',
                             rel_bucket = numberToString t\<rparr>]\<rparr>)
                        (updateOne (bucketFilter (sdsStreamIdentifier s1) (numberToString t))
                           (setWindowParams (Some (toISOString ext t)) None)
                           (indexCollection s1 @
                             [\<lparr>doc_id = root, doc_streamId = sdsStreamIdentifier s1,
                               doc_leaf = True, doc_relations = [], doc_count = 0,
                               doc_members = [], doc_start = None, doc_end = None\<rparr>,
                              \<lparr>doc_id = numberToString t, doc_streamId = sdsStreamIdentifier s1,
                               doc_leaf = True, doc_relations = [], doc_count = 0,
                               doc_members = [], doc_start = None, doc_end = None\<rparr>]))) \<noteq> None"
          using numberToString_not_root[of t]
          by (simp add: find_updateOne_bucket find_None_set bucketFilter_def)
        with None ValidDate assms eq ok show ?thesis
          by (auto simp: findOne_def)
      qed
    qed
  next
    case err
    with assms show ?thesis by (simp add: instantiate_def await_def)
  qed
qed

lemma instantiate_twice:
  assumes "instantiate ext config s = (Inr (), s')"
  shows "instantiate ext config s' = (Inr (), s')"
proof -
  note p = instantiate_success[OF assms]
  from p obtain m0 where
    m0: "findOne (\<lambda>m. meta_id m = sdsStreamIdentifier s') (metaCollection s') = Some m0"
    by auto
  have same: "s'\<lparr>mongoConnection := True\<rparr> = s'"
    "s'\<lparr>priv_pageSize := Some 50,
        priv_timestampPath := Some ''http://www.w3.org/ns/sosa/resultTime'',
        priv_metadata := Some config\<rparr> = s'"
    using p by (cases s'; simp)+
  have i: "initialise (Some config) s' = (Inr (), s')"
    using initialise_existing[OF m0, of "Some config"] by (simp add: same)
  from p have c: "mongoConnection s'" by simp
  from instantiate_eq[OF i c, of ext] p show ?thesis
    by (simp add: same)
qed

section \<open>The claims\<close>

text \<open>
  C1, as amended. When the current bucket is full, the timestamp path is
  configured, the extractor yields a valid instant of the member, the current
  window has a valid start, the root bucket is present, and no bucket of the
  stream has the stringified instant as its identifier yet, \<open>append\<close> succeeds
  and changes the index collection only: one document is added, the bucket
  whose identifier is the stringified instant and whose \<open>start\<close> is the instant
  as ISO text, with no \<open>end\<close>, no members and no relations; the root's relations
  grow by exactly two, a greater-than-or-equal relation at the instant pointing
  at the new bucket followed by a less-than relation at the same instant
  pointing at the current bucket; the current bucket's \<open>end\<close> is the instant,
  its members as before; and a lookup of any other identifier of the stream
  yields what it yielded before.
\<close>

theorem append_split_links:
  assumes g: "fst (getMostRecentWindow ext s) = Inr currentWindow"
      and b: "fst (bucketSize currentWindow s) = Inr n"
      and full: "pageSize s < enat (n + 1)"
      and tp: "priv_timestampPath s = Some p" "p \<noteq> []"
      and ex: "extractDate ext (member_quads member) p = Inr (ValidDate t)"
      and st: "w_start currentWindow = Some (ValidDate t0)"
      and rt: "findOne (bucketFilter (sdsStreamIdentifier s) root) (indexCollection s) = Some r"
      and fresh: "findOne (bucketFilter (sdsStreamIdentifier s) (numberToString t))
                    (indexCollection s) = None"
  shows "fst (append ext member s) = Inr ()
       \<and> snd (append ext member s)
           = s\<lparr>indexCollection := indexCollection (snd (append ext member s))\<rparr>
       \<and> length (indexCollection (snd (append ext member s))) = length (indexCollection s) + 1
       \<and> findOne (bucketFilter (sdsStreamIdentifier s) (numberToString t))
            (indexCollection (snd (append ext member s)))
           = Some \<lparr>doc_id = numberToString t, doc_streamId = sdsStreamIdentifier s,
                   doc_leaf = True, doc_relations = [], doc_count = 0, doc_members = [],
                   doc_start = Some (toISOString ext t), doc_end = None\<rparr>
       \<and> (\<exists>r'. findOne (bucketFilter (sdsStreamIdentifier s) root)
                   (indexCollection (snd (append ext member s))) = Some r'
               \<and> doc_relations r' = doc_relations r @
                    [\<lparr>rel_type = GreaterThanOrEqualTo, rel_value = toISOString ext t,
                      rel_path = p, rel_bucket = numberToString t\<rparr>,
                     \<lparr>rel_type = LessThan, rel_value = toISOString ext t,
                      rel_path = p, rel_bucket = w_identifier currentWindow\<rparr>])
       \<and> (\<exists>c c'. findOne (bucketFilter (sdsStreamIdentifier s) (w_identifier currentWindow))
                     (indexCollection s) = Some c
                \<and> findOne (bucketFilter (sdsStreamIdentifier s) (w_identifier currentWindow))
                     (indexCollection (snd (append ext member s))) = Some c'
                \<and> doc_end c' = Some (toISOString ext t)
                \<and> doc_members c' = doc_members c)
       \<and> (\<forall>k. k \<noteq> numberToString t \<and> k \<noteq> root \<and> k \<noteq> w_identifier currentWindow \<longrightarrow>
              findOne (bucketFilter (sdsStreamIdentifier s) k)
                (indexCollection (snd (append ext member s)))
              = findOne (bucketFilter (sdsStreamIdentifier s) k) (indexCollection s))"
proof -
  let ?sid = "sdsStreamIdentifier s"
  let ?new = "numberToString t"
  let ?cur = "w_identifier currentWindow"
  from bucketSize_Inr(2)[OF b] obtain c where
    c: "find (bucketFilter ?sid ?cur) (indexCollection s) = Some c" by blast
  from fresh have fr: "find (bucketFilter ?sid ?new) (indexCollection s) = None"
    by (simp add: findOne_def)
  from rt have rt': "find (bucketFilter ?sid root) (indexCollection s) = Some r"
    by (simp add: findOne_def)
  have ne1: "?new \<noteq> root" by (rule numberToString_not_root)
  have ne2: "?new \<noteq> ?cur" using c fr by auto
  note eq = append_split[OF g b full tp, of member]
  have res: "append ext member s = (Inr (), snd (append ext member s))"
    using ex st by (simp add: eq Let_def)
  have idx: "indexCollection (snd (append ext member s)) =
     updateOne (bucketFilter ?sid root)
       (\<lambda>d. d\<lparr>doc_relations := doc_relations d @
          [\<lparr>rel_type = LessThan, rel_value = toISOString ext t,
            rel_path = p, rel_bucket = ?cur\<rparr>]\<rparr>)
       (updateOne (bucketFilter ?sid ?cur)
          (setWindowParams (Some (toISOString ext t0)) (Some (toISOString ext t)))
          (updateOne (bucketFilter ?sid root)
            (\<lambda>d. d\<lparr>doc_relations := doc_relations d @
               [\<lparr>rel_type = GreaterThanOrEqualTo, rel_value = toISOString ext t,
                 rel_path = p, rel_bucket = ?new\<rparr>]\<rparr>)
            (updateOne (bucketFilter ?sid ?new)
               (setWindowParams (Some (toISOString ext t)) None)
               (indexCollection s @
                  [\<lparr>doc_id = ?new, doc_streamId = ?sid, doc_leaf = True,
                    doc_relations = [], doc_count = 0, doc_members = [],
                    doc_start = None, doc_end = None\<rparr>]))))"
    using ex st by (simp add: eq Let_def)
  have fr2: "snd (append ext member s)
           = s\<lparr>indexCollection := indexCollection (snd (append ext member s))\<rparr>"
    using ex st by (simp add: eq Let_def)
  have 1: "fst (append ext member s) = Inr ()"
    by (subst res) simp
  have 3: "length (indexCollection (snd (append ext member s))) = length (indexCollection s) + 1"
    by (simp add: idx)
  have 4: "find (bucketFilter ?sid ?new) (indexCollection (snd (append ext member s)))
           = Some \<lparr>doc_id = ?new, doc_streamId = ?sid,
                   doc_leaf = True, doc_relations = [], doc_count = 0, doc_members = [],
                   doc_start = Some (toISOString ext t), doc_end = None\<rparr>"
    using ne1 ne2
    by (simp add: idx find_updateOne_bucket find_snoc fr bucketFilter_def setWindowParams_def)
  have 5: "\<exists>r'. find (bucketFilter ?sid root)
                   (indexCollection (snd (append ext member s))) = Some r'
               \<and> doc_relations r' = doc_relations r @
                    [\<lparr>rel_type = GreaterThanOrEqualTo, rel_value = toISOString ext t,
                      rel_path = p, rel_bucket = ?new\<rparr>,
                     \<lparr>rel_type = LessThan, rel_value = toISOString ext t,
                      rel_path = p, rel_bucket = ?cur\<rparr>]"
    using ne1 by (simp add: idx find_updateOne_bucket find_snoc rt')
  have 6: "\<exists>c'. find (bucketFilter ?sid ?cur)
                     (indexCollection (snd (append ext member s))) = Some c'
                \<and> doc_end c' = Some (toISOString ext t)
                \<and> doc_members c' = doc_members c"
  proof (cases "?cur = root")
    case True
    with c rt' have "c = r" by simp
    with True ne1 show ?thesis
      by (simp add: idx find_updateOne_bucket find_snoc rt')
  next
    case False
    with ne2 show ?thesis
      by (simp add: idx find_updateOne_bucket find_snoc c)
  qed
  have 7: "\<forall>k. k \<noteq> ?new \<and> k \<noteq> root \<and> k \<noteq> ?cur \<longrightarrow>
             find (bucketFilter ?sid k) (indexCollection (snd (append ext member s)))
             = find (bucketFilter ?sid k) (indexCollection s)"
    by (auto simp: idx find_updateOne_bucket find_snoc bucketFilter_def split: option.splits)
  from 1 fr2 3 4 5 6 7 c show ?thesis
    unfolding findOne_def by blast
qed

theorem append_split_links_witness:
  "fst (getMostRecentWindow demo_ext (demo_state (Some 1) (Some demo_path) [''m1'']))
     = Inr (documentToWindow demo_ext (demo_first [''m1'']))
   \<and> fst (bucketSize (documentToWindow demo_ext (demo_first [''m1'']))
            (demo_state (Some 1) (Some demo_path) [''m1''])) = Inr 1
   \<and> pageSize (demo_state (Some 1) (Some demo_path) [''m1'']) < enat (1 + 1)
   \<and> priv_timestampPath (demo_state (Some 1) (Some demo_path) [''m1'']) = Some demo_path
   \<and> extractDate demo_ext (member_quads (demo_member ''m2'' ''2022-08-07T08:08:22.000Z''))
         demo_path = Inr (ValidDate 1659859702000)
   \<and> w_start (documentToWindow demo_ext (demo_first [''m1''])) = Some (ValidDate 1659859701000)
   \<and> findOne (bucketFilter ''s'' root)
         (indexCollection (demo_state (Some 1) (Some demo_path) [''m1''])) = Some demo_root
   \<and> findOne (bucketFilter ''s'' ''1659859702000'')
         (indexCollection (demo_state (Some 1) (Some demo_path) [''m1''])) = None
   \<and> fst (append demo_ext (demo_member ''m2'' ''2022-08-07T08:08:22.000Z'')
            (demo_state (Some 1) (Some demo_path) [''m1''])) = Inr ()
   \<and> findOne (bucketFilter ''s'' ''1659859702000'')
         (indexCollection (snd (append demo_ext (demo_member ''m2'' ''2022-08-07T08:08:22.000Z'')
            (demo_state (Some 1) (Some demo_path) [''m1'']))))
       = Some \<lparr>doc_id = ''1659859702000'', doc_streamId = ''s'', doc_leaf = True,
               doc_relations = [], doc_count = 0, doc_members = [],
               doc_start = Some ''2022-08-07T08:08:22.000Z'', doc_end = None\<rparr>"
proof -
  let ?s = "demo_state (Some 1) (Some demo_path) [''m1'']"
  let ?w = "documentToWindow demo_ext (demo_first [''m1''])"
  let ?m = "demo_member ''m2'' ''2022-08-07T08:08:22.000Z''"
  have sid: "sdsStreamIdentifier ?s = ''s''" by (simp add: demo_state_def)
  have iso: "toISOString demo_ext 1659859702000 = ''2022-08-07T08:08:22.000Z''"
    by (simp add: demo_ext_def demo_iso_def)
  have st: "w_start ?w = Some (ValidDate 1659859701000)" by (simp add: demo_window)
  have rt: "findOne (bucketFilter (sdsStreamIdentifier ?s) root) (indexCollection ?s)
              = Some demo_root"
    by (simp add: demo_state_def findOne_def bucketFilter_def root_def demo_root_def)
  have fresh: "findOne (bucketFilter (sdsStreamIdentifier ?s) (numberToString 1659859702000))
                 (indexCollection ?s) = None"
    by (simp add: demo_numberToString)
       (simp add: demo_state_def findOne_def bucketFilter_def demo_root_def demo_first_def)
  note inst = append_split_links[OF demo_full(1) demo_full(2) demo_full(3) demo_path_set(1)
      demo_path_set(2) demo_extract(1) st rt fresh]
  from inst have "fst (append demo_ext ?m ?s) = Inr ()" by blast
  moreover from inst have "findOne (bucketFilter ''s'' ''1659859702000'')
         (indexCollection (snd (append demo_ext ?m ?s)))
       = Some \<lparr>doc_id = ''1659859702000'', doc_streamId = ''s'', doc_leaf = True,
               doc_relations = [], doc_count = 0, doc_members = [],
               doc_start = Some ''2022-08-07T08:08:22.000Z'', doc_end = None\<rparr>"
    unfolding sid iso demo_numberToString by blast
  moreover note demo_full(1) demo_full(2) demo_full(3) demo_path_set(1) demo_extract(1) st
    rt[unfolded sid] fresh[unfolded sid demo_numberToString]
  ultimately show ?thesis by blast
qed

text \<open>
  Without the conditions on the instant the split is not as described. The
  first window, holding one member at page size one, is full. A member whose
  timestamp is the start of that window, \<open>2022-08-07T08:08:21Z\<close>, makes
  \<open>createBucket\<close> insert a second document with the identifier
  \<open>1659859701000\<close>; the updates of \<open>createWindow\<close> and \<open>updateWindow\<close> both reach
  the first document with that identifier, so the document created has no
  \<open>start\<close>, and both relations added to the root name the one identifier. And a
  member without a timestamp makes \<open>extractDate\<close> throw: nothing is created.
\<close>

theorem append_split_links_counterexample:
  "fst (getMostRecentWindow demo_ext (demo_state (Some 1) (Some demo_path) [''m1'']))
     = Inr (documentToWindow demo_ext (demo_first [''m1'']))
   \<and> fst (bucketSize (documentToWindow demo_ext (demo_first [''m1'']))
            (demo_state (Some 1) (Some demo_path) [''m1''])) = Inr 1
   \<and> pageSize (demo_state (Some 1) (Some demo_path) [''m1'']) < enat (1 + 1)
   \<and> priv_timestampPath (demo_state (Some 1) (Some demo_path) [''m1'']) = Some demo_path
   \<and> extractDate demo_ext (member_quads (demo_member ''m2'' ''2022-08-07T08:08:21.000Z''))
         demo_path = Inr (ValidDate 1659859701000)
   \<and> numberToString 1659859701000 = ''1659859701000''
   \<and> append demo_ext (demo_member ''m2'' ''2022-08-07T08:08:21.000Z'')
        (demo_state (Some 1) (Some demo_path) [''m1''])
      = (Inr (), (demo_state (Some 1) (Some demo_path) [''m1''])\<lparr>indexCollection :=
          [demo_root\<lparr>doc_relations := doc_relations demo_root @
             [\<lparr>rel_type = GreaterThanOrEqualTo, rel_value = ''2022-08-07T08:08:21.000Z'',
               rel_path = demo_path, rel_bucket = ''1659859701000''\<rparr>,
              \<lparr>rel_type = LessThan, rel_value = ''2022-08-07T08:08:21.000Z'',
               rel_path = demo_path, rel_bucket = ''1659859701000''\<rparr>]\<rparr>,
           (demo_first [''m1''])\<lparr>doc_end := Some ''2022-08-07T08:08:21.000Z''\<rparr>,
           \<lparr>doc_id = ''1659859701000'', doc_streamId = ''s'', doc_leaf = True,
            doc_relations = [], doc_count = 0, doc_members = [],
            doc_start = None, doc_end = None\<rparr>]\<rparr>)
   \<and> doc_start (last (indexCollection (snd
        (append demo_ext (demo_member ''m2'' ''2022-08-07T08:08:21.000Z'')
           (demo_state (Some 1) (Some demo_path) [''m1'']))))) = None
   \<and> extractDate demo_ext (member_quads \<lparr>member_id = ''m2'', member_quads = []\<rparr>) demo_path
        = Inl ExtractionError
   \<and> append demo_ext \<lparr>member_id = ''m2'', member_quads = []\<rparr>
        (demo_state (Some 1) (Some demo_path) [''m1''])
      = (Inl ExtractionError, demo_state (Some 1) (Some demo_path) [''m1''])"
proof -
  have "doc_start (last (indexCollection (snd
        (append demo_ext (demo_member ''m2'' ''2022-08-07T08:08:21.000Z'')
           (demo_state (Some 1) (Some demo_path) [''m1'']))))) = None"
    by (subst demo_split_duplicate) simp
  moreover have "extractDate demo_ext (member_quads \<lparr>member_id = ''m2'', member_quads = []\<rparr>)
      demo_path = Inl ExtractionError"
    by (simp add: demo_extract(3))
  moreover note demo_full(1) demo_full(2) demo_full(3) demo_path_set(1) demo_extract(2)
    demo_numberToString(1) demo_split_duplicate demo_split_no_timestamp
  ultimately show ?thesis by blast
qed

text \<open>
  C2. With page size \<open>P\<close> configured, when every bucket holds at most \<open>P\<close>
  members, then after \<open>append\<close> of any member, and after \<open>publish\<close> of any
  sequence of members, whether the calls succeed or throw, the page size is
  still \<open>P\<close> and every bucket, closed or open, holds at most \<open>P\<close> members: a
  member is pushed only to a bucket of size \<open>n\<close> with \<open>n + 1 \<le> P\<close>. The bootstrap
  keeps the bound as well (the buckets it creates hold no member), so the bound
  holds of every state reached from an empty index collection by \<open>instantiate\<close>
  and then \<open>append\<close> and \<open>publish\<close>.
\<close>

theorem publish_capacity:
  assumes "priv_pageSize s = Some P"
      and "\<forall>d\<in>set (indexCollection s). length (doc_members d) \<le> P"
  shows "priv_pageSize (snd (append ext member s)) = Some P
       \<and> (\<forall>d\<in>set (indexCollection (snd (append ext member s))). length (doc_members d) \<le> P)
       \<and> priv_pageSize (snd (publish ext members s)) = Some P
       \<and> (\<forall>d\<in>set (indexCollection (snd (publish ext members s))). length (doc_members d) \<le> P)
       \<and> (\<forall>d\<in>set (indexCollection (snd (instantiate ext config s))).
             length (doc_members d) \<le> P)"
  using append_capacity[OF assms, of ext member] publish_capacity_all[OF assms, of ext members]
    instantiate_capacity[OF assms(2), of ext config]
  by simp

theorem publish_capacity_witness:
  "priv_pageSize (demo_state (Some 1) (Some demo_path) []) = Some 1
   \<and> list_all (\<lambda>d. length (doc_members d) \<le> 1)
        (indexCollection (demo_state (Some 1) (Some demo_path) []))
   \<and> list_all (\<lambda>d. length (doc_members d) \<le> 1)
        (indexCollection (snd (publish demo_ext
           [demo_member ''m1'' ''2022-08-07T08:08:22.000Z'',
            demo_member ''m2'' ''2022-08-07T08:08:22.000Z'',
            demo_member ''m3'' ''2022-08-07T08:08:22.000Z'']
           (demo_state (Some 1) (Some demo_path) []))))"
proof -
  let ?s = "demo_state (Some 1) (Some demo_path) []"
  have h1: "priv_pageSize ?s = Some 1" by (simp add: demo_state_def)
  have h2: "\<forall>d\<in>set (indexCollection ?s). length (doc_members d) \<le> 1"
    by (simp add: demo_state_def demo_root_def demo_first_def)
  from publish_capacity[OF h1 h2, of demo_ext "demo_member ''m1'' ''2022-08-07T08:08:22.000Z''"
      "[demo_member ''m1'' ''2022-08-07T08:08:22.000Z'',
        demo_member ''m2'' ''2022-08-07T08:08:22.000Z'',
        demo_member ''m3'' ''2022-08-07T08:08:22.000Z'']"] h1 h2
  show ?thesis
    unfolding list_all_iff by blast
qed

text \<open>
  C3. A call of \<open>append\<close> that finds the current bucket full writes nothing to
  the data collection and adds the member's identifier to no bucket: whatever
  the outcome of the call, the data collection is as before, and the members
  lists of the index collection, in order, are those before the call, followed
  by the empty list of the new bucket when one was created.
\<close>

theorem append_split_drops_member:
  assumes "fst (getMostRecentWindow ext s) = Inr currentWindow"
      and "fst (bucketSize currentWindow s) = Inr n"
      and "pageSize s < enat (n + 1)"
  shows "dataCollection (snd (append ext member s)) = dataCollection s
       \<and> (map doc_members (indexCollection (snd (append ext member s)))
             = map doc_members (indexCollection s)
          \<or> map doc_members (indexCollection (snd (append ext member s)))
             = map doc_members (indexCollection s) @ [Nil])"
proof -
  from append_split_frame[OF assms, of member]
  have fr: "snd (append ext member s)
           = s\<lparr>indexCollection := indexCollection (snd (append ext member s))\<rparr>"
    and mem: "map doc_members (indexCollection (snd (append ext member s)))
             = map doc_members (indexCollection s)
          \<or> map doc_members (indexCollection (snd (append ext member s)))
             = map doc_members (indexCollection s) @ [Nil]"
    by simp_all
  have "dataCollection (snd (append ext member s)) = dataCollection s"
    by (subst fr) simp
  with mem show ?thesis by simp
qed

theorem append_split_drops_member_witness:
  "fst (getMostRecentWindow demo_ext (demo_state (Some 1) (Some demo_path) [''m1'']))
     = Inr (documentToWindow demo_ext (demo_first [''m1'']))
   \<and> fst (bucketSize (documentToWindow demo_ext (demo_first [''m1'']))
            (demo_state (Some 1) (Some demo_path) [''m1''])) = Inr 1
   \<and> pageSize (demo_state (Some 1) (Some demo_path) [''m1'']) < enat (1 + 1)
   \<and> dataCollection (snd (append demo_ext (demo_member ''m2'' ''2022-08-07T08:08:22.000Z'')
        (demo_state (Some 1) (Some demo_path) [''m1'']))) = []
   \<and> map doc_members (indexCollection (snd
        (append demo_ext (demo_member ''m2'' ''2022-08-07T08:08:22.000Z'')
           (demo_state (Some 1) (Some demo_path) [''m1'']))))
      = [Nil, [''m1''], Nil]"
proof -
  let ?s = "demo_state (Some 1) (Some demo_path) [''m1'']"
  let ?m = "demo_member ''m2'' ''2022-08-07T08:08:22.000Z''"
  note inst = append_split_drops_member[OF demo_full(1) demo_full(2) demo_full(3), of ?m]
  have d: "dataCollection ?s = []" by (simp add: demo_state_def)
  from inst d have "dataCollection (snd (append demo_ext ?m ?s)) = []" by simp
  moreover have "map doc_members (indexCollection (snd (append demo_ext ?m ?s)))
      = [Nil, [''m1''], Nil]"
    by (subst demo_split_fresh) (simp add: demo_root_def demo_first_def)
  moreover note demo_full(1) demo_full(2) demo_full(3)
  ultimately show ?thesis by blast
qed

text \<open>
  C4. When the size \<open>n\<close> of the current bucket satisfies \<open>n + 1 \<le> pageSize\<close>,
  \<open>append\<close> succeeds, adds the member's payload to the data collection, and
  appends exactly the member's identifier to the members of the current bucket
  (the document \<open>findOne\<close> yields for the current window's identifier); no other
  document of the index collection changes, and no relation is added, the
  root's included.
\<close>

theorem append_under_capacity:
  assumes "fst (getMostRecentWindow ext s) = Inr currentWindow"
      and "fst (bucketSize currentWindow s) = Inr n"
      and "enat (n + 1) \<le> pageSize s"
  shows "\<exists>i<length (indexCollection s).
           bucketFilter (sdsStreamIdentifier s) (w_identifier currentWindow) (indexCollection s ! i)
         \<and> findOne (bucketFilter (sdsStreamIdentifier s) (w_identifier currentWindow))
              (indexCollection s) = Some (indexCollection s ! i)
         \<and> length (doc_members (indexCollection s ! i)) = n
         \<and> append ext member s =
             (Inr (),
              s\<lparr>dataCollection := dataCollection s @
                   [\<lparr>data_id = member_id member,
                     data_data = quadsToString ext (member_quads member)\<rparr>],
                indexCollection := (indexCollection s)
                   [i := (indexCollection s ! i)\<lparr>doc_members :=
                           doc_members (indexCollection s ! i) @ [member_id member]\<rparr>]\<rparr>)"
proof -
  let ?P = "bucketFilter (sdsStreamIdentifier s) (w_identifier currentWindow)"
  let ?f = "\<lambda>d. d\<lparr>doc_members := doc_members d @ [member_id member]\<rparr>"
  note g = getMostRecentWindow_Inr[OF assms(1)]
  note b = bucketSize_Inr[OF assms(2)]
  from b(2) obtain d where d: "find ?P (indexCollection s) = Some d" "n = length (doc_members d)"
    by blast
  from updateOne_find_Some[OF d(1), of ?f] obtain i where i:
    "i < length (indexCollection s)" "indexCollection s ! i = d"
    "updateOne ?P ?f (indexCollection s) = (indexCollection s)[i := ?f d]"
    by blast
  have "append ext member s =
     (Inr (), s\<lparr>dataCollection := dataCollection s @
                   [\<lparr>data_id = member_id member,
                     data_data = quadsToString ext (member_quads member)\<rparr>],
                indexCollection := updateOne ?P ?f (indexCollection s)\<rparr>)"
    using assms(3) g(2)
    by (simp add: append_def await_def g(1) b(1) storeMember_eq addMemberstoBucket_eq
        not_less[symmetric])
  with i d find_Some_set[OF d(1)] show ?thesis
    by (intro exI[of _ i]) (simp add: findOne_def)
qed

theorem append_under_capacity_witness:
  "fst (getMostRecentWindow demo_ext (demo_state (Some 2) None [''m1'']))
     = Inr (documentToWindow demo_ext (demo_first [''m1'']))
   \<and> fst (bucketSize (documentToWindow demo_ext (demo_first [''m1'']))
            (demo_state (Some 2) None [''m1''])) = Inr 1
   \<and> enat (1 + 1) \<le> pageSize (demo_state (Some 2) None [''m1''])
   \<and> append demo_ext (demo_member ''m2'' ''2022-08-07T08:08:22.000Z'')
        (demo_state (Some 2) None [''m1''])
       = (Inr (), (demo_state (Some 2) None [''m1''])
            \<lparr>dataCollection := [\<lparr>data_id = ''m2'', data_data = ''m2''\<rparr>],
             indexCollection := [demo_root, demo_first [''m1'', ''m2'']]\<rparr>)"
proof -
  let ?s = "demo_state (Some 2) None [''m1'']"
  let ?w = "documentToWindow demo_ext (demo_first [''m1''])"
  let ?m = "demo_member ''m2'' ''2022-08-07T08:08:22.000Z''"
  have h1: "fst (getMostRecentWindow demo_ext ?s) = Inr ?w"
    by (simp add: demo_getMostRecentWindow)
  have h2: "fst (bucketSize ?w ?s) = Inr 1"
    by (simp add: demo_bucketSize demo_window)
  have h3: "enat (1 + 1) \<le> pageSize ?s"
    by (simp add: pageSize_def demo_state_def)
  have idx: "indexCollection ?s = [demo_root, demo_first [''m1'']]" by (simp add: demo_state_def)
  from append_under_capacity[OF h1 h2 h3, of ?m]
  obtain i where i: "i < length (indexCollection ?s)"
    "bucketFilter (sdsStreamIdentifier ?s) (w_identifier ?w) (indexCollection ?s ! i)"
    "append demo_ext ?m ?s =
             (Inr (),
              ?s\<lparr>dataCollection := dataCollection ?s @
                   [\<lparr>data_id = member_id ?m,
                     data_data = quadsToString demo_ext (member_quads ?m)\<rparr>],
                indexCollection := (indexCollection ?s)
                   [i := (indexCollection ?s ! i)\<lparr>doc_members :=
                           doc_members (indexCollection ?s ! i) @ [member_id ?m]\<rparr>]\<rparr>)"
    by blast
  have "i = 1"
    using i(1,2) unfolding idx
    by (cases i) (auto simp: bucketFilter_def demo_window demo_root_def)
  with i(3) have "append demo_ext ?m ?s
       = (Inr (), ?s\<lparr>dataCollection := [\<lparr>data_id = ''m2'', data_data = ''m2''\<rparr>],
             indexCollection := [demo_root, demo_first [''m1'', ''m2'']]\<rparr>)"
    by (simp add: idx demo_state_def demo_member_def demo_ext_def demo_first_def)
  with h1 h2 h3 show ?thesis by simp
qed



text \<open>
  C6, as amended. On a connected ingestor, \<open>getMostRecentWindow\<close> sorts the
  buckets of the stream by the stored \<open>start\<close> descending and returns the first.
  The stored \<open>start\<close> is an ISO text and the sort compares texts byte by byte, a
  bucket without \<open>start\<close> below every other. So when the stream has a bucket, the
  window returned is that of a bucket of the stream whose stored \<open>start\<close> is
  maximal in that order; it is a bucket of maximal start instant whenever, among
  the stream's buckets, the order of the stored texts agrees with the order of
  the instants they denote. When the stream has no bucket, it throws the
  not-found error.
\<close>

theorem getMostRecentWindow_maximal_start:
  assumes "mongoConnection s"
  shows "(if \<exists>d\<in>set (indexCollection s). doc_streamId d = sdsStreamIdentifier s
          then \<exists>d\<in>set (indexCollection s).
                 doc_streamId d = sdsStreamIdentifier s
               \<and> (\<forall>d'\<in>set (indexCollection s).
                     doc_streamId d' = sdsStreamIdentifier s \<longrightarrow> doc_start d' \<le> doc_start d)
               \<and> ((\<forall>d1\<in>set (indexCollection s). \<forall>d2\<in>set (indexCollection s). \<forall>t1 t2.
                       doc_streamId d1 = sdsStreamIdentifier s
                     \<and> doc_streamId d2 = sdsStreamIdentifier s
                     \<and> newDate ext (doc_start d1) = ValidDate t1
                     \<and> newDate ext (doc_start d2) = ValidDate t2
                     \<and> doc_start d1 \<le> doc_start d2 \<longrightarrow> t1 \<le> t2) \<longrightarrow>
                  (\<forall>d'\<in>set (indexCollection s). \<forall>t' t.
                       doc_streamId d' = sdsStreamIdentifier s
                     \<and> newDate ext (doc_start d') = ValidDate t'
                     \<and> newDate ext (doc_start d) = ValidDate t \<longrightarrow> t' \<le> t))
               \<and> getMostRecentWindow ext s = (Inr (documentToWindow ext d), s)
          else getMostRecentWindow ext s = (Inl NotFoundError, s))"
proof -
  let ?xs = "filter (\<lambda>d. doc_streamId d = sdsStreamIdentifier s) (indexCollection s)"
  show ?thesis
  proof (cases "sort_start_desc ?xs")
    case Nil
    then have "?xs = []" by (simp add: sort_start_desc_Nil)
    then have "\<not> (\<exists>d\<in>set (indexCollection s). doc_streamId d = sdsStreamIdentifier s)"
      by (simp add: filter_empty_conv)
    moreover have "getMostRecentWindow ext s = (Inl NotFoundError, s)"
      using assms Nil by (simp add: getMostRecentWindow_eq)
    ultimately show ?thesis by simp
  next
    case (Cons d ds)
    from sort_start_desc_head[OF Cons]
    have d: "d \<in> set (indexCollection s)" "doc_streamId d = sdsStreamIdentifier s"
      and mx: "\<forall>d'\<in>set (indexCollection s).
                 doc_streamId d' = sdsStreamIdentifier s \<longrightarrow> doc_start d' \<le> doc_start d"
      by simp_all
    have g: "getMostRecentWindow ext s = (Inr (documentToWindow ext d), s)"
      using assms Cons by (simp add: getMostRecentWindow_eq)
    have inst: "(\<forall>d1\<in>set (indexCollection s). \<forall>d2\<in>set (indexCollection s). \<forall>t1 t2.
                       doc_streamId d1 = sdsStreamIdentifier s
                     \<and> doc_streamId d2 = sdsStreamIdentifier s
                     \<and> newDate ext (doc_start d1) = ValidDate t1
                     \<and> newDate ext (doc_start d2) = ValidDate t2
                     \<and> doc_start d1 \<le> doc_start d2 \<longrightarrow> t1 \<le> t2) \<longrightarrow>
                  (\<forall>d'\<in>set (indexCollection s). \<forall>t' t.
                       doc_streamId d' = sdsStreamIdentifier s
                     \<and> newDate ext (doc_start d') = ValidDate t'
                     \<and> newDate ext (doc_start d) = ValidDate t \<longrightarrow> t' \<le> t)"
      using d mx by blast
    from d mx inst g show ?thesis by auto
  qed
qed

theorem getMostRecentWindow_maximal_start_witness:
  "mongoConnection (demo_state None None [''m1''])
   \<and> doc_start demo_root \<le> doc_start (demo_first [''m1''])
   \<and> getMostRecentWindow demo_ext (demo_state None None [''m1''])
       = (Inr (documentToWindow demo_ext (demo_first [''m1''])), demo_state None None [''m1''])
   \<and> getMostRecentWindow demo_ext ((demo_state None None [''m1''])\<lparr>indexCollection := []\<rparr>)
       = (Inl NotFoundError, (demo_state None None [''m1''])\<lparr>indexCollection := []\<rparr>)"
proof -
  have h: "mongoConnection (demo_state None None [''m1''])"
    by (simp add: demo_state_def)
  have h': "mongoConnection ((demo_state None None [''m1''])\<lparr>indexCollection := []\<rparr>)"
    by (simp add: demo_state_def)
  have e: "getMostRecentWindow demo_ext ((demo_state None None [''m1''])\<lparr>indexCollection := []\<rparr>)
       = (Inl NotFoundError, (demo_state None None [''m1''])\<lparr>indexCollection := []\<rparr>)"
    using getMostRecentWindow_maximal_start[OF h', of demo_ext] by simp
  have le: "doc_start demo_root \<le> doc_start (demo_first [''m1''])"
    by (simp add: demo_root_def demo_first_def)
  from h le e demo_getMostRecentWindow[of None None "[''m1'']"] show ?thesis by blast
qed

text \<open>
  The order of the texts is not the order of the instants once a year has more
  than four digits. The first window is full; a member stamped with the first
  instant of the year 10000 splits it, and the new bucket starts at
  \<open>+010000-01-01T00:00:00.000Z\<close>, a text below \<open>2022-08-07T08:08:21.000Z\<close>. After
  the split \<open>getMostRecentWindow\<close> still returns the window of 2022, whose start
  instant is not maximal.
\<close>

theorem getMostRecentWindow_maximal_start_counterexample:
  "append demo_ext_far (demo_member ''m2'' ''+010000-01-01T00:00:00.000Z'')
     (demo_state (Some 1) (Some demo_path) [''m1''])
   = (Inr (), (demo_state (Some 1) (Some demo_path) [''m1''])\<lparr>indexCollection :=
        [demo_root\<lparr>doc_relations := doc_relations demo_root @
           [\<lparr>rel_type = GreaterThanOrEqualTo, rel_value = ''+010000-01-01T00:00:00.000Z'',
             rel_path = demo_path, rel_bucket = ''253402300800000''\<rparr>,
            \<lparr>rel_type = LessThan, rel_value = ''+010000-01-01T00:00:00.000Z'',
             rel_path = demo_path, rel_bucket = ''1659859701000''\<rparr>]\<rparr>,
         (demo_first [''m1''])\<lparr>doc_end := Some ''+010000-01-01T00:00:00.000Z''\<rparr>,
         demo_far]\<rparr>)
   \<and> mongoConnection (snd (append demo_ext_far
        (demo_member ''m2'' ''+010000-01-01T00:00:00.000Z'')
        (demo_state (Some 1) (Some demo_path) [''m1''])))
   \<and> fst (getMostRecentWindow demo_ext_far (snd (append demo_ext_far
        (demo_member ''m2'' ''+010000-01-01T00:00:00.000Z'')
        (demo_state (Some 1) (Some demo_path) [''m1'']))))
      = Inr (documentToWindow demo_ext_far (demo_first [''m1'']))
   \<and> w_identifier (documentToWindow demo_ext_far (demo_first [''m1''])) = ''1659859701000''
   \<and> w_start (documentToWindow demo_ext_far (demo_first [''m1'']))
      = Some (ValidDate 1659859701000)
   \<and> doc_streamId demo_far = ''s''
   \<and> w_start (documentToWindow demo_ext_far demo_far) = Some (ValidDate 253402300800000)
   \<and> (1659859701000 :: int) < 253402300800000"
proof -
  let ?s2 = "snd (append demo_ext_far (demo_member ''m2'' ''+010000-01-01T00:00:00.000Z'')
        (demo_state (Some 1) (Some demo_path) [''m1'']))"
  have c: "mongoConnection ?s2"
    by (subst demo_far_split) (simp add: demo_state_def)
  have g: "fst (getMostRecentWindow demo_ext_far ?s2)
      = Inr (documentToWindow demo_ext_far (demo_first [''m1'']))"
    by (subst demo_far_split) (simp add: demo_far_most_recent demo_root_def)
  have w: "w_identifier (documentToWindow demo_ext_far (demo_first [''m1''])) = ''1659859701000''"
    "w_start (documentToWindow demo_ext_far (demo_first [''m1'']))
      = Some (ValidDate 1659859701000)"
    by (simp_all add: demo_far_window(1))
  have f: "doc_streamId demo_far = ''s''" by (simp add: demo_far_def)
  have n: "(1659859701000 :: int) < 253402300800000" by simp
  from demo_far_split c g w f demo_far_window(2) n show ?thesis by blast
qed

text \<open>
  C7. When the current bucket is full (its size plus one exceeds the page size)
  and the timestamp path is unset (absent or the empty text), \<open>append\<close> throws
  the configuration error and the whole state, so every bucket with its
  members, relations, start and end, is unchanged.
\<close>

theorem append_unset_path_unchanged:
  assumes "fst (getMostRecentWindow ext s) = Inr currentWindow"
      and "fst (bucketSize currentWindow s) = Inr n"
      and "pageSize s < enat (n + 1)"
      and "priv_timestampPath s = None \<or> priv_timestampPath s = Some []"
  shows "append ext member s = (Inl ConfigurationError, s)"
  using assms(3)
  by (simp add: append_def await_def getMostRecentWindow_Inr(1)[OF assms(1)]
      bucketSize_Inr(1)[OF assms(2)] timestampPath_unset[OF assms(4)])

theorem append_unset_path_unchanged_witness:
  "fst (getMostRecentWindow demo_ext (demo_state (Some 1) None [''m1'']))
     = Inr (documentToWindow demo_ext (demo_first [''m1'']))
   \<and> fst (bucketSize (documentToWindow demo_ext (demo_first [''m1'']))
            (demo_state (Some 1) None [''m1''])) = Inr 1
   \<and> pageSize (demo_state (Some 1) None [''m1'']) < enat (1 + 1)
   \<and> priv_timestampPath (demo_state (Some 1) None [''m1'']) = None
   \<and> append demo_ext (demo_member ''m2'' ''2022-08-07T08:08:22.000Z'')
        (demo_state (Some 1) None [''m1''])
       = (Inl ConfigurationError, demo_state (Some 1) None [''m1''])"
proof -
  let ?s = "demo_state (Some 1) None [''m1'']"
  let ?w = "documentToWindow demo_ext (demo_first [''m1''])"
  have h1: "fst (getMostRecentWindow demo_ext ?s) = Inr ?w"
    by (simp add: demo_getMostRecentWindow)
  have h2: "fst (bucketSize ?w ?s) = Inr 1"
    by (simp add: demo_bucketSize demo_window)
  have h3: "pageSize ?s < enat (1 + 1)"
    by (simp add: pageSize_def demo_state_def)
  have h4: "priv_timestampPath ?s = None"
    by (simp add: demo_state_def)
  have h4': "priv_timestampPath ?s = None \<or> priv_timestampPath ?s = Some []"
    using h4 by simp
  show ?thesis
    using h1 h2 h3 h4
      append_unset_path_unchanged[OF h1 h2 h3 h4', of "demo_member ''m2'' ''2022-08-07T08:08:22.000Z''"]
    by simp
qed

text \<open>
  C8. When the stream's metadata is in the meta collection, \<open>initialise\<close> returns
  with no more effect than the connection, and \<open>instantiate\<close> leaves the meta and
  data collections as they are; when moreover the root bucket is present,
  \<open>instantiate\<close> returns with the collections unchanged: it only connects and sets
  the page size, the timestamp path and the metadata of the ingestor. And
  whenever \<open>instantiate\<close> has returned, running it again on the state it left
  returns and changes nothing at all.
\<close>

theorem instantiate_idempotent:
  assumes "findOne (\<lambda>m. meta_id m = sdsStreamIdentifier s) (metaCollection s) = Some m0"
  shows "initialise sdsMetadata s = (Inr (), s\<lparr>mongoConnection := True\<rparr>)
       \<and> metaCollection (snd (instantiate ext config s)) = metaCollection s
       \<and> dataCollection (snd (instantiate ext config s)) = dataCollection s
       \<and> (findOne (bucketFilter (sdsStreamIdentifier s) root) (indexCollection s) \<noteq> None \<longrightarrow>
            instantiate ext config s =
              (Inr (), s\<lparr>mongoConnection := True, priv_pageSize := Some 50,
                    priv_timestampPath := Some ''http://www.w3.org/ns/sosa/resultTime'',
                    priv_metadata := Some config\<rparr>))
       \<and> (\<forall>s'. instantiate ext config s = (Inr (), s') \<longrightarrow>
                 instantiate ext config s' = (Inr (), s'))"
  using initialise_existing[OF assms, of sdsMetadata]
    instantiate_after_initialise[OF initialise_existing[OF assms, of "Some config"], of ext]
    instantiate_twice[of ext config s]
  by simp

theorem instantiate_idempotent_witness:
  "findOne (\<lambda>m. meta_id m = sdsStreamIdentifier (demo_state (Some 50) (Some demo_path) [''m1'']))
       (metaCollection (demo_state (Some 50) (Some demo_path) [''m1'']))
     = Some \<lparr>meta_id = ''s'', meta_value = ''cfg'', meta_type = SDS_Stream\<rparr>
   \<and> findOne (bucketFilter ''s'' root)
       (indexCollection (demo_state (Some 50) (Some demo_path) [''m1''])) = Some demo_root
   \<and> initialise None (demo_state (Some 50) (Some demo_path) [''m1''])
       = (Inr (), demo_state (Some 50) (Some demo_path) [''m1''])
   \<and> instantiate demo_ext ''cfg'' (demo_state (Some 50) (Some demo_path) [''m1''])
       = (Inr (), demo_state (Some 50) (Some demo_path) [''m1''])"
proof -
  let ?s = "demo_state (Some 50) (Some demo_path) [''m1'']"
  have h: "findOne (\<lambda>m. meta_id m = sdsStreamIdentifier ?s) (metaCollection ?s)
     = Some \<lparr>meta_id = ''s'', meta_value = ''cfg'', meta_type = SDS_Stream\<rparr>"
    by (simp add: demo_state_def findOne_def)
  have r: "findOne (bucketFilter ''s'' root) (indexCollection ?s) = Some demo_root"
    by (simp add: demo_state_def findOne_def bucketFilter_def root_def demo_root_def)
  have same: "?s\<lparr>mongoConnection := True, priv_pageSize := Some 50,
                    priv_timestampPath := Some ''http://www.w3.org/ns/sosa/resultTime'',
                    priv_metadata := Some ''cfg''\<rparr> = ?s"
            "?s\<lparr>mongoConnection := True\<rparr> = ?s"
            "?s\<lparr>priv_pageSize := Some 50,
                    priv_timestampPath := Some ''http://www.w3.org/ns/sosa/resultTime'',
                    priv_metadata := Some ''cfg''\<rparr> = ?s"
            "sdsStreamIdentifier ?s = ''s''"
    by (simp_all add: demo_state_def demo_path_def)
  from instantiate_idempotent[OF h, of None demo_ext "''cfg''"] r
  have "initialise None ?s = (Inr (), ?s)" and "instantiate demo_ext ''cfg'' ?s = (Inr (), ?s)"
    unfolding same by simp_all
  with h r show ?thesis
    unfolding same by blast
qed

text \<open>
  C9, as amended. \<open>addWindowToRoot\<close> of a window without \<open>start\<close> throws the invalid-window
  error and changes nothing. Of a window that has a valid \<open>start\<close>, on a connected
  ingestor with the timestamp path configured and the root bucket present, it
  appends to the root's relations exactly one relation, of type
  greater-than-or-equal, whose value is the window's start as ISO text, whose
  path is the configured timestamp path and whose bucket is the window's
  identifier; nothing else in the state changes.
\<close>

theorem addWindowToRoot_relation:
  "(w_start window = None \<longrightarrow> addWindowToRoot ext window s = (Inl InvalidWindowError, s))
   \<and> (\<forall>t p r.
          mongoConnection s \<and> priv_timestampPath s = Some p \<and> p \<noteq> []
        \<and> findOne (bucketFilter (sdsStreamIdentifier s) root) (indexCollection s) = Some r
        \<and> w_start window = Some (ValidDate t) \<longrightarrow>
          (\<exists>i<length (indexCollection s).
             indexCollection s ! i = r
           \<and> addWindowToRoot ext window s =
               (Inr (), s\<lparr>indexCollection := (indexCollection s)
                  [i := r\<lparr>doc_relations := doc_relations r @
                      [\<lparr>rel_type = GreaterThanOrEqualTo, rel_value = toISOString ext t,
                        rel_path = p, rel_bucket = w_identifier window\<rparr>]\<rparr>]\<rparr>)))"
proof (intro conjI allI impI)
  assume "w_start window = None"
  then show "addWindowToRoot ext window s = (Inl InvalidWindowError, s)"
    by (simp add: addWindowToRoot_def throw_def)
next
  fix t p r
  assume a: "mongoConnection s \<and> priv_timestampPath s = Some p \<and> p \<noteq> []
        \<and> findOne (bucketFilter (sdsStreamIdentifier s) root) (indexCollection s) = Some r
        \<and> w_start window = Some (ValidDate t)"
  let ?rel = "\<lparr>rel_type = GreaterThanOrEqualTo, rel_value = toISOString ext t,
                rel_path = p, rel_bucket = w_identifier window\<rparr>"
  let ?f = "\<lambda>d. d\<lparr>doc_relations := doc_relations d @ [?rel]\<rparr>"
  have tp: "timestampPath s = (Inr p, s)"
    using a by (simp add: timestampPath_Some)
  have eq: "addWindowToRoot ext window s =
      (Inr (), s\<lparr>indexCollection :=
         updateOne (bucketFilter (sdsStreamIdentifier s) root) ?f (indexCollection s)\<rparr>)"
    using a
    by (simp add: addWindowToRoot_def date_toISOString_def io_defs tp addRelationsToBucket_eq)
  from a have "find (bucketFilter (sdsStreamIdentifier s) root) (indexCollection s) = Some r"
    by (simp add: findOne_def)
  from updateOne_find_Some[OF this, of ?f] obtain i where
    "i < length (indexCollection s)" "indexCollection s ! i = r"
    "updateOne (bucketFilter (sdsStreamIdentifier s) root) ?f (indexCollection s)
       = (indexCollection s)[i := ?f r]"
    by blast
  with eq show "\<exists>i<length (indexCollection s).
               indexCollection s ! i = r
             \<and> addWindowToRoot ext window s =
                 (Inr (), s\<lparr>indexCollection := (indexCollection s)
                    [i := r\<lparr>doc_relations := doc_relations r @ [?rel]\<rparr>]\<rparr>)"
    by auto
qed

theorem addWindowToRoot_relation_witness:
  "addWindowToRoot demo_ext
       \<lparr>w_identifier = ''1659859702000'', w_memberIdentifiers = None,
        w_start = None, w_end = None\<rparr> (demo_state None (Some demo_path) [])
     = (Inl InvalidWindowError, demo_state None (Some demo_path) [])
   \<and> mongoConnection (demo_state None (Some demo_path) [])
   \<and> priv_timestampPath (demo_state None (Some demo_path) []) = Some demo_path
   \<and> findOne (bucketFilter ''s'' root) (indexCollection (demo_state None (Some demo_path) []))
       = Some demo_root
   \<and> addWindowToRoot demo_ext
       \<lparr>w_identifier = ''1659859702000'', w_memberIdentifiers = None,
        w_start = Some (ValidDate 1659859702000), w_end = None\<rparr>
       (demo_state None (Some demo_path) [])
     = (Inr (), (demo_state None (Some demo_path) [])\<lparr>indexCollection :=
          [demo_root\<lparr>doc_relations := doc_relations demo_root @
             [\<lparr>rel_type = GreaterThanOrEqualTo, rel_value = ''2022-08-07T08:08:22.000Z'',
               rel_path = demo_path, rel_bucket = ''1659859702000''\<rparr>]\<rparr>,
           demo_first []]\<rparr>)"
proof -
  let ?s = "demo_state None (Some demo_path) []"
  let ?w = "\<lparr>w_identifier = ''1659859702000'', w_memberIdentifiers = None,
        w_start = Some (ValidDate 1659859702000), w_end = None\<rparr>"
  have h: "mongoConnection ?s \<and> priv_timestampPath ?s = Some demo_path \<and> demo_path \<noteq> []
        \<and> findOne (bucketFilter (sdsStreamIdentifier ?s) root) (indexCollection ?s) = Some demo_root
        \<and> w_start ?w = Some (ValidDate 1659859702000)"
    by (simp add: demo_state_def demo_path_def findOne_def bucketFilter_def root_def
        demo_root_def)
  have sid: "sdsStreamIdentifier ?s = ''s''" by (simp add: demo_state_def)
  have idx: "indexCollection ?s = [demo_root, demo_first []]" by (simp add: demo_state_def)
  have ne: "demo_first [] \<noteq> demo_root" by (simp add: demo_first_def demo_root_def)
  from addWindowToRoot_relation[of ?w demo_ext ?s] h
  obtain i where i: "i < length (indexCollection ?s)" "indexCollection ?s ! i = demo_root"
    "addWindowToRoot demo_ext ?w ?s =
       (Inr (), ?s\<lparr>indexCollection := (indexCollection ?s)
          [i := demo_root\<lparr>doc_relations := doc_relations demo_root @
              [\<lparr>rel_type = GreaterThanOrEqualTo, rel_value = toISOString demo_ext 1659859702000,
                rel_path = demo_path, rel_bucket = w_identifier ?w\<rparr>]\<rparr>]\<rparr>)"
    by blast
  have "i = 0"
    using i(1,2) ne unfolding idx by (cases i) auto
  with i(3) have "addWindowToRoot demo_ext ?w ?s =
       (Inr (), ?s\<lparr>indexCollection :=
          [demo_root\<lparr>doc_relations := doc_relations demo_root @
             [\<lparr>rel_type = GreaterThanOrEqualTo, rel_value = ''2022-08-07T08:08:22.000Z'',
               rel_path = demo_path, rel_bucket = ''1659859702000''\<rparr>]\<rparr>,
           demo_first []]\<rparr>)"
    by (simp add: idx demo_ext_def demo_iso_def)
  moreover have "addWindowToRoot demo_ext
       \<lparr>w_identifier = ''1659859702000'', w_memberIdentifiers = None,
        w_start = None, w_end = None\<rparr> ?s = (Inl InvalidWindowError, ?s)"
    using addWindowToRoot_relation[of "\<lparr>w_identifier = ''1659859702000'',
        w_memberIdentifiers = None, w_start = None, w_end = None\<rparr>" demo_ext ?s]
    by simp
  ultimately show ?thesis using h by (simp add: sid)
qed

text \<open>
  A window with a start does not always get its relation. When the index
  collection has no root bucket, the update matches no document:
  \<open>addWindowToRoot\<close> returns and nothing is appended. When the start is an
  invalid date, \<open>toISOString\<close> throws a range error, which is neither the
  relation nor the invalid-window error.
\<close>

theorem addWindowToRoot_relation_counterexample:
  "mongoConnection ((demo_state None (Some demo_path) [])\<lparr>indexCollection := [demo_first []]\<rparr>)
   \<and> priv_timestampPath ((demo_state None (Some demo_path) [])\<lparr>indexCollection := [demo_first []]\<rparr>)
       = Some demo_path
   \<and> findOne (bucketFilter ''s'' root)
         (indexCollection ((demo_state None (Some demo_path) [])\<lparr>indexCollection := [demo_first []]\<rparr>))
       = None
   \<and> addWindowToRoot demo_ext
         \<lparr>w_identifier = ''1659859702000'', w_memberIdentifiers = None,
          w_start = Some (ValidDate 1659859702000), w_end = None\<rparr>
         ((demo_state None (Some demo_path) [])\<lparr>indexCollection := [demo_first []]\<rparr>)
       = (Inr (), (demo_state None (Some demo_path) [])\<lparr>indexCollection := [demo_first []]\<rparr>)
   \<and> findOne (bucketFilter ''s'' root) (indexCollection (demo_state None (Some demo_path) []))
       = Some demo_root
   \<and> addWindowToRoot demo_ext
         \<lparr>w_identifier = ''NaN'', w_memberIdentifiers = None,
          w_start = Some InvalidDate, w_end = None\<rparr>
         (demo_state None (Some demo_path) [])
       = (Inl RangeError, demo_state None (Some demo_path) [])"
  by (simp add: addWindowToRoot_def date_toISOString_def io_defs timestampPath_def
      addRelationsToBucket_eq demo_state_def demo_path_def findOne_def bucketFilter_def root_def
      demo_first_def demo_root_def)

text \<open>
  C10. On a connected ingestor, \<open>bucketSize\<close> of a window whose identifier names a
  bucket of the stream returns the length of the members list of that bucket
  (the document that \<open>findOne\<close> yields for the identifier), and leaves the state
  as it is; when no bucket of the stream has the identifier it throws the
  not-found error.
\<close>

theorem bucketSize_members_length:
  assumes "mongoConnection s"
  shows "(if \<exists>b\<in>set (indexCollection s). bucketFilter (sdsStreamIdentifier s) (w_identifier window) b
          then \<exists>b\<in>set (indexCollection s).
                 bucketFilter (sdsStreamIdentifier s) (w_identifier window) b
               \<and> findOne (bucketFilter (sdsStreamIdentifier s) (w_identifier window)) (indexCollection s) = Some b
               \<and> bucketSize window s = (Inr (length (doc_members b)), s)
          else bucketSize window s = (Inl NotFoundError, s))"
proof (cases "find (bucketFilter (sdsStreamIdentifier s) (w_identifier window)) (indexCollection s)")
  case None
  then have "bucketSize window s = (Inl NotFoundError, s)"
    using assms by (simp add: bucketSize_eq)
  moreover have "\<not> (\<exists>b\<in>set (indexCollection s). bucketFilter (sdsStreamIdentifier s) (w_identifier window) b)"
    using None by (simp add: find_None_set)
  ultimately show ?thesis by simp
next
  case (Some b)
  then have "b \<in> set (indexCollection s) \<and> bucketFilter (sdsStreamIdentifier s) (w_identifier window) b"
    by (simp add: find_Some_set)
  moreover have "bucketSize window s = (Inr (length (doc_members b)), s)"
    using Some assms by (simp add: bucketSize_eq)
  ultimately show ?thesis using Some by (auto simp: findOne_def)
qed

theorem bucketSize_members_length_witness:
  "mongoConnection (demo_state None None [''m1'', ''m2''])
   \<and> bucketSize \<lparr>w_identifier = ''1659859701000'', w_memberIdentifiers = None,
                  w_start = None, w_end = None\<rparr> (demo_state None None [''m1'', ''m2''])
       = (Inr 2, demo_state None None [''m1'', ''m2''])
   \<and> bucketSize \<lparr>w_identifier = ''42'', w_memberIdentifiers = None,
                  w_start = None, w_end = None\<rparr> (demo_state None None [''m1'', ''m2''])
       = (Inl NotFoundError, demo_state None None [''m1'', ''m2''])"
proof -
  have h: "mongoConnection (demo_state None None [''m1'', ''m2''])"
    by (simp add: demo_state_def)
  show ?thesis
    using h
      bucketSize_members_length[OF h, of "\<lparr>w_identifier = ''1659859701000'',
         w_memberIdentifiers = None, w_start = None, w_end = None\<rparr>"]
      bucketSize_members_length[OF h, of "\<lparr>w_identifier = ''42'',
         w_memberIdentifiers = None, w_start = None, w_end = None\<rparr>"]
    by (simp add: demo_state_def demo_root_def demo_first_def bucketFilter_def findOne_def)
qed

end
